theory Spec2Isabelle
  imports Complex_Main "HOL-Library.Word"
begin

section \<open>Layouts and modifiers\<close>

text \<open>
  The rehydrator builds a \<open>Layout\<close> in three ways: the default one, the default one with
  \<open>fBuiltin\<close> overwritten, and one with every field given. The default values of the
  fields are declared outside the sources at hand, so a layout is kept as the way it was
  built. The fields of \<open>FullLayout\<close> are, in order: flags, location, offset, binding, index,
  set, builtin, inputAttachmentIndex, primitive, maxVertices, invocations, when, ctype.
\<close>

datatype Layout =
    DefaultLayout
  | BuiltinLayout int
  | FullLayout int int int int int int int int int int int string int

datatype Modifiers =
    DefaultModifiers
  | Modifiers Layout int

section \<open>The type model\<close>

datatype NumberKind = kFloat | kSigned | kUnsigned | kBoolean | kNonnumeric

datatype TypeKind = kArray | kEnum | kMatrix | kOther | kScalar | kStruct | kVector

text \<open>
  Modelled from the spec: the class \<open>Type\<close> is declared in SkSLType.h, which is not among
  the sources. A type is an immutable descriptor; what each accessor of the class returns
  is a field of the descriptor, so that \<open>Type::coercionCost\<close>, \<open>Type::toCompound\<close>,
  \<open>Type::clone\<close>, \<open>Type::coerceExpression\<close> and \<open>Type::checkForOutOfRangeLiteral\<close> read
  exactly what the source reads. \<open>fComponentType\<close> is \<open>None\<close> for a type that is its own
  component; \<open>fCoercibleTypes\<close> is the nullable list of explicitly coercible types.
\<close>

datatype Type = Type
  (name: string)
  (displayName: string)
  (typeKind: TypeKind)
  (numberKind: NumberKind)
  (priority: int)
  (isLiteral: bool)
  (columns: int)
  (rows: int)
  (fComponentType: "Type option")
  (fCoercibleTypes: "Type list option")
  (fields: "Field list")
  (fOffset: int)
  (isInBuiltinTypes: bool)
  (minimumValue: int)
  (maximumValue: int)
  (slotCount: int)
and Field = Field (fModifiers: Modifiers) (fName: string) (fType: Type)

definition componentType :: "Type \<Rightarrow> Type" where
  "componentType t = (case fComponentType t of None \<Rightarrow> t | Some c \<Rightarrow> c)"

definition isScalar :: "Type \<Rightarrow> bool" where
  "isScalar t = (typeKind t = kScalar)"

definition isVector :: "Type \<Rightarrow> bool" where
  "isVector t = (typeKind t = kVector)"

definition isMatrix :: "Type \<Rightarrow> bool" where
  "isMatrix t = (typeKind t = kMatrix)"

definition isArray :: "Type \<Rightarrow> bool" where
  "isArray t = (typeKind t = kArray)"

definition isStruct :: "Type \<Rightarrow> bool" where
  "isStruct t = (typeKind t = kStruct)"

definition isFloat :: "Type \<Rightarrow> bool" where
  "isFloat t = (numberKind t = kFloat)"

definition isSigned :: "Type \<Rightarrow> bool" where
  "isSigned t = (numberKind t = kSigned)"

definition isUnsigned :: "Type \<Rightarrow> bool" where
  "isUnsigned t = (numberKind t = kUnsigned)"

definition isInteger :: "Type \<Rightarrow> bool" where
  "isInteger t = (isSigned t \<or> isUnsigned t)"

definition isNumber :: "Type \<Rightarrow> bool" where
  "isNumber t = (isFloat t \<or> isInteger t)"

text \<open>
  Modelled from the spec: \<open>CoercionCost\<close> is declared in SkSLType.h. It is the ranked result
  \<open>Free\<close>, \<open>Normal n\<close>, \<open>Narrowing n\<close> or \<open>Impossible\<close>; a cost is possible unless it is
  \<open>Impossible\<close>, or \<open>Narrowing\<close> while narrowing conversions are not allowed.
\<close>

datatype CoercionCost = Free | Normal int | Narrowing int | Impossible

fun isPossible :: "CoercionCost \<Rightarrow> bool \<Rightarrow> bool" where
  "isPossible Impossible allowNarrowingConversions = False"
| "isPossible (Narrowing n) allowNarrowingConversions = allowNarrowingConversions"
| "isPossible c allowNarrowingConversions = True"

subsection \<open>Type::coercionCost\<close>

text \<open>
  The loop over \<open>fCoercibleTypes\<close>: the index of the first entry equal to \<open>other\<close>,
  counting from \<open>i\<close>.
\<close>

fun coercibleIndex :: "Type list \<Rightarrow> Type \<Rightarrow> nat \<Rightarrow> nat option" where
  "coercibleIndex [] other i = None"
| "coercibleIndex (t # ts) other i =
     (if t = other then Some i else coercibleIndex ts other (Suc i))"

text \<open>
  \<open>Type::coercionCost\<close> calls itself on the component types. A descriptor that is a vector
  or a matrix and its own component makes that call with the same arguments again, so
  the function is partial: \<open>None\<close> is the call that does not return.
\<close>

partial_function (option) coercionCost :: "Type \<Rightarrow> Type \<Rightarrow> CoercionCost option" where
  "coercionCost this other =
     (if this = other then Some Free
      else if isVector this \<and> isVector other then
        (if columns this = columns other
         then coercionCost (componentType this) (componentType other)
         else Some Impossible)
      else if isMatrix this then
        (if columns this = columns other \<and> rows this = rows other
         then coercionCost (componentType this) (componentType other)
         else Some Impossible)
      else if isNumber this \<and> isNumber other then
        (if isLiteral this \<and> isInteger this then Some Free
         else if numberKind this \<noteq> numberKind other then Some Impossible
         else if priority other \<ge> priority this
           then Some (Normal (priority other - priority this))
         else Some (Narrowing (priority this - priority other)))
      else (case fCoercibleTypes this of
              None \<Rightarrow> Some Impossible
            | Some ts \<Rightarrow>
                (case coercibleIndex ts other 0 of
                   Some i \<Rightarrow> Some (Normal (int i + 1))
                 | None \<Rightarrow> Some Impossible)))"

section \<open>Type::toCompound\<close>

text \<open>
  How a call ends without a result. \<open>SK_ABORT\<close> stops the program in every build.
  \<open>SkASSERT\<close> and \<open>SkDEBUGFAIL\<close> stop it only where assertions are compiled in
  (\<open>SK_DEBUG\<close>); in a build without them the macro expands to nothing and the statements
  after it run. \<open>Type::toCompound\<close> and \<open>Type::clone\<close> follow such a macro with a return
  of their own, so they take the build as the parameter \<open>sk_debug\<close> and have both paths.
  The rehydrator is modelled with its assertions compiled in: they are its whole contract
  for a stream that is not well formed, and a run that passes every assertion, as every
  run that returns in the model does, is the same run without them.
  \<open>UndefinedBehaviour\<close> is a read through a null pointer or outside a vector.
  \<open>Nontermination\<close> is a lookup that runs round a cycle of parent tables and never
  returns. \<open>OutOfFuel\<close> belongs to the bound on the recursion of the decoder
  \<open>Rehydrator::symbol\<close> and to nothing else.
\<close>

datatype error =
  SK_ABORT | SkASSERT | SkDEBUGFAIL | UndefinedBehaviour | Nontermination | OutOfFuel



subsection \<open>Some builtin types\<close>

text \<open>
  The builtin singletons are created outside the sources at hand. The descriptors below
  stand for them where a concrete type is needed; the theorems do not depend on the
  values chosen for priorities and bounds.
\<close>

definition scalarDescriptor :: "string \<Rightarrow> NumberKind \<Rightarrow> int \<Rightarrow> bool \<Rightarrow> int \<Rightarrow> int \<Rightarrow> Type" where
  "scalarDescriptor n k p lit lo hi =
     Type n n kScalar k p lit 1 1 None None [] (-1) True lo hi 1"

definition vectorDescriptor :: "string \<Rightarrow> Type \<Rightarrow> int \<Rightarrow> Type" where
  "vectorDescriptor n c cols =
     Type n n kVector kNonnumeric (-1) False cols 1 (Some c) None [] (-1) True 0 0 cols"

definition matrixDescriptor :: "string \<Rightarrow> Type \<Rightarrow> int \<Rightarrow> int \<Rightarrow> Type" where
  "matrixDescriptor n c cols rws =
     Type n n kMatrix kNonnumeric (-1) False cols rws (Some c) None [] (-1) True 0 0 (cols * rws)"

definition floatType :: Type where
  "floatType = scalarDescriptor ''float'' kFloat 10 False 0 0"

definition halfType :: Type where
  "halfType = scalarDescriptor ''half'' kFloat 9 False 0 0"

definition intType :: Type where
  "intType = scalarDescriptor ''int'' kSigned 7 False (- 2147483648) 2147483647"

definition shortType :: Type where
  "shortType = scalarDescriptor ''short'' kSigned 4 False (- 32768) 32767"

definition intLiteralType :: Type where
  "intLiteralType =
     Type ''$intLiteral'' ''int'' kScalar kSigned 5 True 1 1 None None [] (-1) True
       (- 2147483648) 2147483647 1"

definition float2Type :: Type where
  "float2Type = vectorDescriptor ''float2'' floatType 2"

definition float3Type :: Type where
  "float3Type = vectorDescriptor ''float3'' floatType 3"

definition half2Type :: Type where
  "half2Type = vectorDescriptor ''half2'' halfType 2"

definition boolType :: Type where
  "boolType = scalarDescriptor ''bool'' kBoolean 0 False 0 1"

definition float2x2Type :: Type where
  "float2x2Type = matrixDescriptor ''float2x2'' floatType 2 2"

definition float3x3Type :: Type where
  "float3x3Type = matrixDescriptor ''float3x3'' floatType 3 3"

definition half2x2Type :: Type where
  "half2x2Type = matrixDescriptor ''half2x2'' halfType 2 2"

definition genTypeType :: Type where
  "genTypeType =
     Type ''$genType'' ''$genType'' kOther kNonnumeric (-1) False (-1) (-1) None
       (Some [floatType, float2Type, float3Type]) [] (-1) True 0 0 0"




definition voidType :: Type where
  "voidType =
     Type ''void'' ''void'' kOther kNonnumeric (-1) False (-1) (-1) None None [] (-1) True 0 0 0"








section \<open>Expressions and the error reporter\<close>

text \<open>
  Modelled from the spec: the expression classes are declared outside the sources at
  hand. Every node carries its offset and its resolved type; the kinds that
  \<open>Type::coerceExpression\<close> and \<open>Type::checkForOutOfRangeLiteral\<close> tell apart are
  constructors of their own, and \<open>OtherExpression\<close> stands for every other kind. The two
  cast constructors are what \<open>ConstructorScalarCast::Make\<close> and
  \<open>ConstructorCompoundCast::Make\<close> build: a node wrapping the argument.
\<close>

datatype Expression =
    BoolLiteral int Type bool
  | ConstructorCompoundCast int Type Expression
  | ConstructorScalarCast int Type Expression
  | FloatLiteral int Type real
  | FunctionReference int Type
  | IntLiteral int Type int
  | TypeReference int Type
  | OtherExpression int Type

fun Expression_fOffset :: "Expression \<Rightarrow> int" where
  "Expression_fOffset (BoolLiteral offset t v) = offset"
| "Expression_fOffset (ConstructorCompoundCast offset t e) = offset"
| "Expression_fOffset (ConstructorScalarCast offset t e) = offset"
| "Expression_fOffset (FloatLiteral offset t v) = offset"
| "Expression_fOffset (FunctionReference offset t) = offset"
| "Expression_fOffset (IntLiteral offset t v) = offset"
| "Expression_fOffset (TypeReference offset t) = offset"
| "Expression_fOffset (OtherExpression offset t) = offset"

fun Expression_type :: "Expression \<Rightarrow> Type" where
  "Expression_type (BoolLiteral offset t v) = t"
| "Expression_type (ConstructorCompoundCast offset t e) = t"
| "Expression_type (ConstructorScalarCast offset t e) = t"
| "Expression_type (FloatLiteral offset t v) = t"
| "Expression_type (FunctionReference offset t) = t"
| "Expression_type (IntLiteral offset t v) = t"
| "Expression_type (TypeReference offset t) = t"
| "Expression_type (OtherExpression offset t) = t"

fun is_FunctionReference :: "Expression \<Rightarrow> bool" where
  "is_FunctionReference (FunctionReference offset t) = True"
| "is_FunctionReference e = False"

fun is_TypeReference :: "Expression \<Rightarrow> bool" where
  "is_TypeReference (TypeReference offset t) = True"
| "is_TypeReference e = False"

text \<open>
  Modelled from the spec: \<open>Expression::coercionCost\<close> is declared outside the sources at
  hand; it is the coercion cost of the expression's type.
\<close>

definition Expression_coercionCost :: "Expression \<Rightarrow> Type \<Rightarrow> CoercionCost option" where
  "Expression_coercionCost e target = coercionCost (Expression_type e) target"

text \<open>
  The context, as far as the type model uses it: the error reporter \<open>fErrors\<close>, a sink of
  (offset, message) pairs in the order reported, and the setting
  \<open>fAllowNarrowingConversions\<close>.
\<close>

record Context =
  fErrors :: "(int \<times> string) list"
  fAllowNarrowingConversions :: bool

definition error :: "Context \<Rightarrow> int \<Rightarrow> string \<Rightarrow> Context" where
  "error context offset msg = context\<lparr>fErrors := fErrors context @ [(offset, msg)]\<rparr>"

text \<open>\<open>to_string\<close> on an integer: its decimal digits, after a minus sign when negative.\<close>

fun digits :: "nat \<Rightarrow> string" where
  "digits n =
     (if n < 10 then [''0123456789'' ! n]
      else digits (n div 10) @ [''0123456789'' ! (n mod 10)])"

definition to_string :: "int \<Rightarrow> string" where
  "to_string v = (if v < 0 then CHR ''-'' # digits (nat (- v)) else digits (nat v))"

subsection \<open>Type::coerceExpression\<close>

text \<open>
  \<open>expr\<close> is a nullable pointer; the result is the nullable expression returned together
  with the context after the errors reported. The outer \<open>option\<close> is \<open>None\<close> only when the
  call of \<open>coercionCost\<close> does not return.
\<close>

definition coerceExpression ::
  "Type \<Rightarrow> Expression option \<Rightarrow> Context \<Rightarrow> (Expression option \<times> Context) option" where
  "coerceExpression this expr context =
     (case expr of
        None \<Rightarrow> Some (None, context)
      | Some e \<Rightarrow>
          (let offset = Expression_fOffset e in
           if is_FunctionReference e then
             Some (None, error context offset ''expected '(' to begin function call'')
           else if is_TypeReference e then
             Some (None, error context offset ''expected '(' to begin constructor invocation'')
           else if Expression_type e = this then Some (Some e, context)
           else
             (case Expression_coercionCost e this of
                None \<Rightarrow> None
              | Some cost \<Rightarrow>
                  if \<not> isPossible cost (fAllowNarrowingConversions context) then
                    Some (None, error context offset
                      (''expected '' @ [CHR 0x27] @ displayName this @ [CHR 0x27]
                       @ '', but found '' @ [CHR 0x27] @ displayName (Expression_type e)
                       @ [CHR 0x27]))
                  else if isScalar this then
                    Some (Some (ConstructorScalarCast offset this e), context)
                  else if isVector this \<or> isMatrix this then
                    Some (Some (ConstructorCompoundCast offset this e), context)
                  else
                    Some (None, error context offset
                      (''cannot construct '' @ [CHR 0x27] @ displayName this @ [CHR 0x27])))))"

subsection \<open>Type::checkForOutOfRangeLiteral\<close>

text \<open>
  \<open>ConstantFolder::GetConstantValueForVariable\<close> and
  \<open>Expression::getConstantSubexpression\<close> are defined outside the sources at hand: they
  are the parameters \<open>GetConstantValueForVariable\<close> and \<open>getConstantSubexpression\<close>. The
  loop over the slots carries \<open>foundError\<close> and the context.
\<close>

fun checkSlots ::
  "(Expression \<Rightarrow> int \<Rightarrow> Expression option) \<Rightarrow> Type \<Rightarrow> Expression \<Rightarrow> Expression \<Rightarrow>
   int list \<Rightarrow> bool \<times> Context \<Rightarrow> bool \<times> Context" where
  "checkSlots getConstantSubexpression this expr valueExpr [] (foundError, context) =
     (foundError, context)"
| "checkSlots getConstantSubexpression this expr valueExpr (slot # slots) (foundError, context) =
     (case getConstantSubexpression valueExpr slot of
        Some (IntLiteral o' t' val) \<Rightarrow>
          (if val < minimumValue (componentType this) \<or> val > maximumValue (componentType this)
           then checkSlots getConstantSubexpression this expr valueExpr slots
                  (True, error context (Expression_fOffset expr)
                     (''integer is out of range for type '' @ [CHR 0x27] @ displayName this
                      @ [CHR 0x27] @ '': '' @ to_string val))
           else checkSlots getConstantSubexpression this expr valueExpr slots
                  (foundError, context))
      | _ \<Rightarrow> checkSlots getConstantSubexpression this expr valueExpr slots
                  (foundError, context))"

definition checkForOutOfRangeLiteral ::
  "(Expression \<Rightarrow> Expression) \<Rightarrow> (Expression \<Rightarrow> int \<Rightarrow> Expression option) \<Rightarrow>
   Type \<Rightarrow> Context \<Rightarrow> Expression \<Rightarrow> bool \<times> Context" where
  "checkForOutOfRangeLiteral GetConstantValueForVariable getConstantSubexpression this context expr =
     (let baseType = componentType this in
      if isInteger baseType then
        (let valueExpr = GetConstantValueForVariable expr;
             numSlots = slotCount (Expression_type valueExpr)
         in checkSlots getConstantSubexpression this expr valueExpr
              (map int [0..<nat numSlots]) (False, context))
      else (False, context))"

text \<open>
  The integer-literal sub-values of a constant expression, in slot order: the values of
  the slots whose constant subexpression is an integer literal. A value is out of range
  for a type when it lies outside the bounds of the type's component type.
\<close>

definition integerLiteralValues ::
  "(Expression \<Rightarrow> int \<Rightarrow> Expression option) \<Rightarrow> Expression \<Rightarrow> int list" where
  "integerLiteralValues getConstantSubexpression valueExpr =
     concat (map (\<lambda>slot. case getConstantSubexpression valueExpr slot of
                            Some (IntLiteral o' t' val) \<Rightarrow> [val]
                          | _ \<Rightarrow> [])
               (map int [0..<nat (slotCount (Expression_type valueExpr))]))"

definition outOfRange :: "Type \<Rightarrow> int \<Rightarrow> bool" where
  "outOfRange t val =
     (val < minimumValue (componentType t) \<or> val > maximumValue (componentType t))"

text \<open>Sample types and expressions for concrete calls.\<close>

definition short2Type :: Type where
  "short2Type = vectorDescriptor ''short2'' shortType 2"

definition short2Constant :: Expression where
  "short2Constant = OtherExpression 17 short2Type"

fun short2Slots :: "Expression \<Rightarrow> int \<Rightarrow> Expression option" where
  "short2Slots (OtherExpression offset t) slot =
     (if slot = 0 then Some (IntLiteral offset intLiteralType 5)
      else if slot = 1 then Some (IntLiteral offset intLiteralType 40000)
      else None)"
| "short2Slots (IntLiteral offset t val) slot =
     (if slot = 0 then Some (IntLiteral offset t val) else None)"
| "short2Slots (FloatLiteral offset t val) slot =
     (if slot = 0 then Some (FloatLiteral offset t val) else None)"
| "short2Slots (BoolLiteral offset t val) slot =
     (if slot = 0 then Some (BoolLiteral offset t val) else None)"
| "short2Slots e slot = None"

section \<open>Symbols and symbol tables\<close>

text \<open>
  Modelled from the spec: the symbol classes and \<open>SymbolTable\<close> are declared outside the
  sources at hand. Symbols and tables are objects referred to by pointers, so they live
  in two stores, lists in which the address of an object is its index; a nullable
  pointer is an \<open>option\<close>. A symbol is a type, a variable (modifiers, name, type, builtin,
  storage), a function declaration (modifiers, name, parameters, return type, builtin),
  a field (name, owner, index), an alias (name, original symbol) or an overload set
  (name, functions). A field is named after the field of its owner's type and an
  overload set after its first function.
\<close>

datatype Symbol =
    TypeSymbol Type
  | Variable Modifiers string nat bool int
  | FunctionDeclaration Modifiers string "nat option list" nat bool
  | FieldSymbol string nat nat
  | SymbolAlias string "nat option"
  | UnresolvedFunction string "nat list"

fun Symbol_name :: "Symbol \<Rightarrow> string" where
  "Symbol_name (TypeSymbol t) = name t"
| "Symbol_name (Variable m n t b st) = n"
| "Symbol_name (FunctionDeclaration m n ps r b) = n"
| "Symbol_name (FieldSymbol n ow i) = n"
| "Symbol_name (SymbolAlias n orig) = n"
| "Symbol_name (UnresolvedFunction n fs) = n"

text \<open>
  Modelled from the spec: a table has an optional parent, a builtin flag, the symbols it
  owns and a mapping from names to symbols, here an association list whose first entry
  for a name is the one in force.
\<close>

record SymbolTable =
  fParent :: "nat option"
  fBuiltin :: bool
  fOwnedSymbols :: "nat list"
  fSymbolMap :: "(string \<times> nat) list"

record Heap =
  symbols :: "Symbol list"
  tables :: "SymbolTable list"

definition isBuiltin :: "SymbolTable \<Rightarrow> bool" where
  "isBuiltin t = fBuiltin t"

text \<open>
  Modelled from the spec: \<open>operator[]\<close> looks a name up in the table, then in its parent,
  recursively, and returns the nearest symbol or null. The chain of parents is followed
  through the store, at most once per table of the store: a longer chain is a cycle, on
  which the lookup would not return.
\<close>

fun lookupChain :: "nat \<Rightarrow> SymbolTable list \<Rightarrow> nat \<Rightarrow> string \<Rightarrow> error + nat option" where
  "lookupChain 0 ts t n = Inl Nontermination"
| "lookupChain (Suc k) ts t n =
     (if t < length ts then
        (case map_of (fSymbolMap (ts ! t)) n of
           Some p \<Rightarrow> Inr (Some p)
         | None \<Rightarrow>
             (case fParent (ts ! t) of
                None \<Rightarrow> Inr None
              | Some parent \<Rightarrow> lookupChain k ts parent n))
      else Inl UndefinedBehaviour)"

definition lookup :: "Heap \<Rightarrow> nat \<Rightarrow> string \<Rightarrow> error + nat option" where
  "lookup h t n = lookupChain (length (tables h)) (tables h) t n"

text \<open>
  Modelled from the spec: \<open>add\<close> and \<open>takeOwnershipOfSymbol\<close> register a new owned symbol,
  which a lookup of its name then finds; \<open>addWithoutOwnership\<close> registers a reference
  to a symbol owned elsewhere. The new symbol is allocated at the end of the store.
\<close>

definition addWithoutOwnership :: "nat \<Rightarrow> nat \<Rightarrow> Heap \<Rightarrow> error + Heap" where
  "addWithoutOwnership t p h =
     (if t < length (tables h) \<and> p < length (symbols h) then
        Inr (h\<lparr>tables := (tables h)[t := (tables h ! t)
               \<lparr>fSymbolMap := (Symbol_name (symbols h ! p), p) # fSymbolMap (tables h ! t)\<rparr>]\<rparr>)
      else Inl UndefinedBehaviour)"

definition takeOwnershipOfSymbol :: "nat \<Rightarrow> Symbol \<Rightarrow> Heap \<Rightarrow> error + nat \<times> Heap" where
  "takeOwnershipOfSymbol t newSymbol h =
     (if t < length (tables h) then
        (let p = length (symbols h) in
         Inr (p, h\<lparr>symbols := symbols h @ [newSymbol],
                   tables := (tables h)[t := (tables h ! t)
                     \<lparr>fOwnedSymbols := fOwnedSymbols (tables h ! t) @ [p],
                      fSymbolMap := (Symbol_name newSymbol, p) # fSymbolMap (tables h ! t)\<rparr>]\<rparr>))
      else Inl UndefinedBehaviour)"

definition add :: "nat \<Rightarrow> Symbol \<Rightarrow> Heap \<Rightarrow> error + nat \<times> Heap" where
  "add t newSymbol h = takeOwnershipOfSymbol t newSymbol h"

text \<open>
  Modelled from the spec: the factories of \<open>Type\<close> are defined outside the sources at
  hand. They build the descriptor of an array (component and count), of a struct
  (offset and ordered fields) and of an enum, none of them a builtin type.
\<close>

definition MakeArrayType :: "string \<Rightarrow> Type \<Rightarrow> int \<Rightarrow> Type" where
  "MakeArrayType n c count =
     Type n n kArray kNonnumeric (-1) False count (-1) (Some c) None [] (-1) False 0 0
       (count * slotCount c)"

definition MakeStructType :: "int \<Rightarrow> string \<Rightarrow> Field list \<Rightarrow> Type" where
  "MakeStructType offset n fs =
     Type n n kStruct kNonnumeric (-1) False (-1) (-1) None None fs offset False 0 0
       (sum_list (map (\<lambda>f. slotCount (fType f)) fs))"

definition MakeEnumType :: "string \<Rightarrow> Type" where
  "MakeEnumType n =
     Type n n kEnum kNonnumeric (-1) False (-1) (-1) None None [] (-1) False 0 0 1"

subsection \<open>Type::clone\<close>

text \<open>
  \<open>this\<close> and \<open>symbolTable\<close> are pointers into the stores; the result is the pointer
  returned, which is null on the last path of a build without assertions, and the stores
  after the call. \<open>as<Type>\<close> asserts the kind of the symbol and then casts the pointer:
  without the assertion, the cast of a symbol that is no type is undefined. The assertion
  on the kind of the type found guards nothing that follows it, so that without it the
  type found is returned whatever its kind.
\<close>

definition clone :: "bool \<Rightarrow> nat \<Rightarrow> nat \<Rightarrow> Heap \<Rightarrow> error + nat option \<times> Heap" where
  "clone sk_debug this symbolTable h =
     (if this < length (symbols h) then
        (case symbols h ! this of
           TypeSymbol t \<Rightarrow>
             if isInBuiltinTypes t then Inr (Some this, h)
             else
               (case lookup h symbolTable (name t) of
                  Inl e \<Rightarrow> Inl e
                | Inr (Some clonedSymbol) \<Rightarrow>
                    (if clonedSymbol < length (symbols h) then
                       (case symbols h ! clonedSymbol of
                          TypeSymbol clonedType \<Rightarrow>
                            if sk_debug \<and> typeKind clonedType \<noteq> typeKind t then Inl SkASSERT
                            else Inr (Some clonedSymbol, h)
                        | _ \<Rightarrow> if sk_debug then Inl SkASSERT else Inl UndefinedBehaviour)
                     else Inl UndefinedBehaviour)
                | Inr None \<Rightarrow>
                    (case typeKind t of
                       kArray \<Rightarrow>
                         map_sum id (apfst Some) (add symbolTable
                           (TypeSymbol (MakeArrayType (name t) (componentType t) (columns t))) h)
                     | kStruct \<Rightarrow>
                         map_sum id (apfst Some) (add symbolTable
                           (TypeSymbol (MakeStructType (fOffset t) (name t) (Type.fields t))) h)
                     | kEnum \<Rightarrow>
                         map_sum id (apfst Some) (add symbolTable
                           (TypeSymbol (MakeEnumType (name t))) h)
                     | _ \<Rightarrow> if sk_debug then Inl SkDEBUGFAIL else Inr (None, h)))
         | _ \<Rightarrow> Inl UndefinedBehaviour)
      else Inl UndefinedBehaviour)"

text \<open>
  A store for concrete calls of \<open>clone\<close>: \<open>float\<close>, a struct with two fields, a variable and
  a type of another kind that is not builtin; the builtin root table, an empty child of
  it and a child that holds the struct.
\<close>

definition rayType :: Type where
  "rayType =
     MakeStructType 12 ''Ray''
       [Field DefaultModifiers ''origin'' float3Type, Field DefaultModifiers ''length'' floatType]"

definition orphanType :: Type where
  "orphanType =
     Type ''orphan'' ''orphan'' kOther kNonnumeric (-1) False (-1) (-1) None None [] (-1) False
       0 0 0"

definition sampleHeap :: Heap where
  "sampleHeap =
     \<lparr>symbols = [TypeSymbol floatType, TypeSymbol rayType,
                 Variable DefaultModifiers ''v'' 0 True 0, TypeSymbol orphanType],
      tables =
        [\<lparr>fParent = None, fBuiltin = True, fOwnedSymbols = [0], fSymbolMap = [(''float'', 0)]\<rparr>,
         \<lparr>fParent = Some 0, fBuiltin = False, fOwnedSymbols = [], fSymbolMap = []\<rparr>,
         \<lparr>fParent = Some 0, fBuiltin = False, fOwnedSymbols = [1], fSymbolMap = [(''Ray'', 1)]\<rparr>]\<rparr>"

section \<open>The rehydrator\<close>

text \<open>
  The command tags and \<open>Type::kUnsizedArray\<close> are enumerators and a constant declared in
  headers that are not among the sources: they are the parameter \<open>K\<close> of the decoder.
\<close>

record Constants =
  kArrayType_Command :: int
  kEnumType_Command :: int
  kFunctionDeclaration_Command :: int
  kField_Command :: int
  kStructType_Command :: int
  kSymbolRef_Command :: int
  kSymbolAlias_Command :: int
  kSystemType_Command :: int
  kUnresolvedFunction_Command :: int
  kVariable_Command :: int
  kBuiltinLayout_Command :: int
  kDefaultLayout_Command :: int
  kLayout_Command :: int
  kDefaultModifiers_Command :: int
  kModifiers8Bit_Command :: int
  kModifiers_Command :: int
  kVoid_Command :: int
  kSymbolTable_Command :: int
  kUnsizedArray :: int

text \<open>
  The session state: the buffer \<open>fStart\<close>, the cursor \<open>fIP\<close> as an offset into it, the
  active symbol table, the symbol registry \<open>fSymbols\<close>, a vector of nullable symbol
  pointers, and the stores the pointers refer to.
\<close>

record Rehydrator =
  fStart :: "8 word list"
  fIP :: nat
  fSymbolTable :: "nat option"
  fSymbols :: "nat option list"
  heap :: Heap

type_synonym 'a decoder = "Rehydrator \<Rightarrow> error + 'a \<times> Rehydrator"

definition yield :: "'a \<Rightarrow> 'a decoder" where
  "yield a s = Inr (a, s)"

definition failWith :: "error \<Rightarrow> 'a decoder" where
  "failWith e s = Inl e"

definition andThen :: "'a decoder \<Rightarrow> ('a \<Rightarrow> 'b decoder) \<Rightarrow> 'b decoder" where
  "andThen m f s = (case m s of Inl e \<Rightarrow> Inl e | Inr (a, s') \<Rightarrow> f a s')"

text \<open>A loop that runs a decoder a given number of times and collects the results.\<close>

fun repeat :: "nat \<Rightarrow> 'a decoder \<Rightarrow> 'a list decoder" where
  "repeat 0 m s = Inr ([], s)"
| "repeat (Suc k) m s =
     (case m s of
        Inl e \<Rightarrow> Inl e
      | Inr (a, s') \<Rightarrow>
          (case repeat k m s' of
             Inl e \<Rightarrow> Inl e
           | Inr (as, s'') \<Rightarrow> Inr (a # as, s'')))"

subsection \<open>Reading the buffer\<close>

text \<open>
  Modelled from the spec: the readers are declared in SkSLRehydrator.h. Integers are
  fixed-width, here with the low byte first; a read past the end of the buffer fails an
  assertion. A string is a 16-bit offset into the string table at the start of the
  buffer, where a length byte precedes the bytes of the string.
\<close>

definition readU8 :: "8 word decoder" where
  "readU8 s =
     (if fIP s < length (fStart s) then Inr (fStart s ! fIP s, s\<lparr>fIP := fIP s + 1\<rparr>)
      else Inl SkASSERT)"

definition readS8 :: "int decoder" where
  "readS8 = andThen readU8 (\<lambda>b. yield (sint b))"

definition readU16 :: "16 word decoder" where
  "readU16 =
     andThen readU8 (\<lambda>b0. andThen readU8 (\<lambda>b1.
       yield (word_of_nat (unat b0 + 256 * unat b1))))"

definition readS16 :: "int decoder" where
  "readS16 = andThen readU16 (\<lambda>w. yield (sint w))"

definition readU32 :: "32 word decoder" where
  "readU32 =
     andThen readU8 (\<lambda>b0. andThen readU8 (\<lambda>b1. andThen readU8 (\<lambda>b2. andThen readU8 (\<lambda>b3.
       yield (word_of_nat (unat b0 + 256 * unat b1 + 65536 * unat b2 + 16777216 * unat b3))))))"

definition readS32 :: "int decoder" where
  "readS32 = andThen readU32 (\<lambda>w. yield (sint w))"

definition readString :: "string decoder" where
  "readString =
     andThen readU16 (\<lambda>offset s.
       let off = unat offset in
       if off < length (fStart s) then
         (let len = unat (fStart s ! off) in
          if off + 1 + len \<le> length (fStart s) then
            Inr (map (\<lambda>b. char_of (unat b)) (take len (drop (off + 1) (fStart s))), s)
          else Inl UndefinedBehaviour)
       else Inl UndefinedBehaviour)"

subsection \<open>The symbol registry\<close>

text \<open>
  Modelled from the spec: \<open>addSymbol\<close> and \<open>symbolRef\<close> are declared in SkSLRehydrator.h.
  The registry is a growable array indexed by the id; \<open>addSymbol\<close> grows it up to the id,
  the slots in between holding null, and stores the symbol at the id. Ids are not
  registered in increasing order: \<open>symbol\<close> reads the id of an alias, of an overload set
  or of an array type first and registers it only after the symbols decoded inside, which
  register their own, later ids. \<open>symbolRef\<close> reads an id and resolves it as the
  back-reference command of \<open>symbol\<close> does.
\<close>

definition addSymbol :: "nat \<Rightarrow> nat option \<Rightarrow> unit decoder" where
  "addSymbol symId newSymbol s =
     Inr ((), s\<lparr>fSymbols :=
       (fSymbols s @ replicate (Suc symId - length (fSymbols s)) None)[symId := newSymbol]\<rparr>)"

definition symbolRef :: "nat option decoder" where
  "symbolRef =
     andThen readU16 (\<lambda>symId s.
       if length (fSymbols s) > unat symId then Inr (fSymbols s ! unat symId, s)
       else Inl SkASSERT)"

subsection \<open>Rehydrator::layout and Rehydrator::modifiers\<close>

definition layout :: "Constants \<Rightarrow> Layout decoder" where
  "layout K =
     andThen readU8 (\<lambda>command.
       if uint command = kBuiltinLayout_Command K then
         andThen readS16 (\<lambda>builtin. yield (BuiltinLayout builtin))
       else if uint command = kDefaultLayout_Command K then yield DefaultLayout
       else if uint command = kLayout_Command K then
         andThen readU32 (\<lambda>flags. andThen readS8 (\<lambda>location. andThen readS8 (\<lambda>offset.
         andThen readS8 (\<lambda>binding. andThen readS8 (\<lambda>index. andThen readS8 (\<lambda>setNumber.
         andThen readS16 (\<lambda>builtin. andThen readS8 (\<lambda>inputAttachmentIndex.
         andThen readS8 (\<lambda>primitive. andThen readS8 (\<lambda>maxVertices.
         andThen readS8 (\<lambda>invocations. andThen readString (\<lambda>whenString.
         andThen readS8 (\<lambda>ctype.
           yield (FullLayout (sint flags) location offset binding index setNumber builtin
                    inputAttachmentIndex primitive maxVertices invocations whenString
                    ctype))))))))))))))
       else failWith SkASSERT)"

definition modifiers :: "Constants \<Rightarrow> Modifiers decoder" where
  "modifiers K =
     andThen readU8 (\<lambda>command.
       if uint command = kDefaultModifiers_Command K then yield DefaultModifiers
       else if uint command = kModifiers8Bit_Command K then
         andThen (layout K) (\<lambda>l. andThen readU8 (\<lambda>flags. yield (Modifiers l (uint flags))))
       else if uint command = kModifiers_Command K then
         andThen (layout K) (\<lambda>l. andThen readS32 (\<lambda>flags. yield (Modifiers l flags)))
       else failWith SkASSERT)"

subsection \<open>Rehydrator::symbol and Rehydrator::type\<close>

text \<open>
  \<open>Rehydrator::type\<close> decodes a symbol and asserts that it is a type; it is given the
  decoder of symbols, and returns the pointer together with the descriptor it points
  to. A null result is dereferenced by the assertion.
\<close>

definition Rehydrator_type :: "nat option decoder \<Rightarrow> (nat \<times> Type) decoder" where
  "Rehydrator_type symbolDecoder =
     andThen symbolDecoder (\<lambda>result s.
       case result of
         None \<Rightarrow> Inl UndefinedBehaviour
       | Some p \<Rightarrow>
           if p < length (symbols (heap s)) then
             (case symbols (heap s) ! p of
                TypeSymbol t \<Rightarrow> Inr ((p, t), s)
              | _ \<Rightarrow> Inl SkASSERT)
           else Inl UndefinedBehaviour)"

text \<open>The calls on the active symbol table, which is dereferenced.\<close>

definition Rehydrator_takeOwnershipOfSymbol :: "Symbol \<Rightarrow> nat decoder" where
  "Rehydrator_takeOwnershipOfSymbol newSymbol s =
     (case fSymbolTable s of
        None \<Rightarrow> Inl UndefinedBehaviour
      | Some t \<Rightarrow>
          (case takeOwnershipOfSymbol t newSymbol (heap s) of
             Inl e \<Rightarrow> Inl e
           | Inr (p, h) \<Rightarrow> Inr (p, s\<lparr>heap := h\<rparr>)))"

definition Rehydrator_addWithoutOwnership :: "nat option \<Rightarrow> unit decoder" where
  "Rehydrator_addWithoutOwnership newSymbol s =
     (case fSymbolTable s of
        None \<Rightarrow> Inl UndefinedBehaviour
      | Some t \<Rightarrow>
          (case newSymbol of
             None \<Rightarrow> Inl UndefinedBehaviour
           | Some p \<Rightarrow>
               (case addWithoutOwnership t p (heap s) of
                  Inl e \<Rightarrow> Inl e
                | Inr h \<Rightarrow> Inr ((), s\<lparr>heap := h\<rparr>))))"

definition Rehydrator_lookup :: "string \<Rightarrow> nat option decoder" where
  "Rehydrator_lookup n s =
     (case fSymbolTable s of
        None \<Rightarrow> Inl UndefinedBehaviour
      | Some t \<Rightarrow>
          (case lookup (heap s) t n of
             Inl e \<Rightarrow> Inl e
           | Inr r \<Rightarrow> Inr (r, s)))"

text \<open>
  The names that the constructors of a field and of an overload set read: the name of
  the field of the owner's type, returned with the owner dereferenced, and the name of
  the first function.
\<close>

definition fieldName :: "nat option \<Rightarrow> nat \<Rightarrow> (string \<times> nat) decoder" where
  "fieldName owner index s =
     (case owner of
        None \<Rightarrow> Inl UndefinedBehaviour
      | Some ow \<Rightarrow>
          if ow < length (symbols (heap s)) then
            (case symbols (heap s) ! ow of
               Variable m n ty b st \<Rightarrow>
                 if ty < length (symbols (heap s)) then
                   (case symbols (heap s) ! ty of
                      TypeSymbol t \<Rightarrow>
                        if index < length (Type.fields t)
                        then Inr ((fName (Type.fields t ! index), ow), s)
                        else Inl UndefinedBehaviour
                    | _ \<Rightarrow> Inl UndefinedBehaviour)
                 else Inl UndefinedBehaviour
             | _ \<Rightarrow> Inl UndefinedBehaviour)
          else Inl UndefinedBehaviour)"

definition functionsName :: "nat list \<Rightarrow> string decoder" where
  "functionsName functions s =
     (case functions of
        [] \<Rightarrow> Inl UndefinedBehaviour
      | f # fs \<Rightarrow>
          if f < length (symbols (heap s)) then Inr (Symbol_name (symbols (heap s) ! f), s)
          else Inl UndefinedBehaviour)"

text \<open>
  The assertion on a decoded overload: the symbol is not null and is a function
  declaration.
\<close>

definition functionDeclaration :: "nat option decoder \<Rightarrow> nat decoder" where
  "functionDeclaration symbolDecoder =
     andThen symbolDecoder (\<lambda>f s.
       case f of
         None \<Rightarrow> Inl SkASSERT
       | Some p \<Rightarrow>
           if p < length (symbols (heap s)) then
             (case symbols (heap s) ! p of
                FunctionDeclaration m n ps r b \<Rightarrow> Inr (p, s)
              | _ \<Rightarrow> Inl SkASSERT)
           else Inl UndefinedBehaviour)"

text \<open>
  \<open>Rehydrator::symbol\<close>. The function calls itself, directly and through
  \<open>Rehydrator::type\<close>; the first argument bounds the depth of these calls, and a call
  that would go deeper ends in \<open>OutOfFuel\<close>. The branches are those of the \<open>switch\<close>, in
  its order.
\<close>

primrec symbol :: "nat \<Rightarrow> Constants \<Rightarrow> nat option decoder" where
  "symbol 0 K = failWith OutOfFuel"
| "symbol (Suc n) K =
     andThen readU8 (\<lambda>kind.
       if uint kind = kArrayType_Command K then
         andThen readU16 (\<lambda>symId.
         andThen (Rehydrator_type (symbol n K)) (\<lambda>componentType.
         andThen readS8 (\<lambda>count.
         andThen (Rehydrator_takeOwnershipOfSymbol (TypeSymbol
           (MakeArrayType
              (name (snd componentType) @
                 (if count = kUnsizedArray K then ''[]''
                  else ''['' @ to_string count @ '']''))
              (snd componentType) count))) (\<lambda>result.
         andThen (addSymbol (unat symId) (Some result)) (\<lambda>u.
         yield (Some result))))))
       else if uint kind = kEnumType_Command K then
         andThen readU16 (\<lambda>symId.
         andThen readString (\<lambda>n'.
         andThen (Rehydrator_takeOwnershipOfSymbol (TypeSymbol (MakeEnumType n'))) (\<lambda>result.
         andThen (addSymbol (unat symId) (Some result)) (\<lambda>u.
         yield (Some result)))))
       else if uint kind = kFunctionDeclaration_Command K then
         andThen readU16 (\<lambda>symId.
         andThen (modifiers K) (\<lambda>m.
         andThen readString (\<lambda>n'.
         andThen readU8 (\<lambda>parameterCount.
         andThen (repeat (unat parameterCount) symbolRef) (\<lambda>parameters.
         andThen (Rehydrator_type (symbol n K)) (\<lambda>returnType.
         andThen (Rehydrator_takeOwnershipOfSymbol
           (FunctionDeclaration m n' parameters (fst returnType) True)) (\<lambda>result.
         andThen (addSymbol (unat symId) (Some result)) (\<lambda>u.
         yield (Some result)))))))))
       else if uint kind = kField_Command K then
         andThen symbolRef (\<lambda>owner.
         andThen readU8 (\<lambda>index.
         andThen (fieldName owner (unat index)) (\<lambda>named.
         andThen (Rehydrator_takeOwnershipOfSymbol
           (FieldSymbol (fst named) (snd named) (unat index))) (\<lambda>result.
         yield (Some result)))))
       else if uint kind = kStructType_Command K then
         andThen readU16 (\<lambda>symId.
         andThen readString (\<lambda>n'.
         andThen readU8 (\<lambda>fieldCount.
         andThen (repeat (unat fieldCount)
           (andThen (modifiers K) (\<lambda>m.
            andThen readString (\<lambda>fieldName'.
            andThen (Rehydrator_type (symbol n K)) (\<lambda>ty.
            yield (Field m fieldName' (snd ty))))))) (\<lambda>fs.
         andThen (Rehydrator_takeOwnershipOfSymbol
           (TypeSymbol (MakeStructType (-1) n' fs))) (\<lambda>result.
         andThen (addSymbol (unat symId) (Some result)) (\<lambda>u.
         yield (Some result)))))))
       else if uint kind = kSymbolRef_Command K then
         andThen readU16 (\<lambda>symId s.
           if length (fSymbols s) > unat symId then Inr (fSymbols s ! unat symId, s)
           else Inl SkASSERT)
       else if uint kind = kSymbolAlias_Command K then
         andThen readU16 (\<lambda>symId.
         andThen readString (\<lambda>n'.
         andThen (symbol n K) (\<lambda>origSymbol.
         andThen (Rehydrator_takeOwnershipOfSymbol (SymbolAlias n' origSymbol)) (\<lambda>symbolAlias.
         andThen (addSymbol (unat symId) (Some symbolAlias)) (\<lambda>u.
         yield (Some symbolAlias))))))
       else if uint kind = kSystemType_Command K then
         andThen readU16 (\<lambda>symId.
         andThen readString (\<lambda>n'.
         andThen (Rehydrator_lookup n') (\<lambda>result s.
           case result of
             None \<Rightarrow> Inl SkASSERT
           | Some p \<Rightarrow>
               if p < length (symbols (heap s)) then
                 (case symbols (heap s) ! p of
                    TypeSymbol t \<Rightarrow>
                      andThen (addSymbol (unat symId) result) (\<lambda>u. yield result) s
                  | _ \<Rightarrow> Inl SkASSERT)
               else Inl UndefinedBehaviour)))
       else if uint kind = kUnresolvedFunction_Command K then
         andThen readU16 (\<lambda>symId.
         andThen readU8 (\<lambda>len.
         andThen (repeat (unat len) (functionDeclaration (symbol n K))) (\<lambda>functions.
         andThen (functionsName functions) (\<lambda>n'.
         andThen (Rehydrator_takeOwnershipOfSymbol (UnresolvedFunction n' functions)) (\<lambda>result.
         andThen (addSymbol (unat symId) (Some result)) (\<lambda>u.
         yield (Some result)))))))
       else if uint kind = kVariable_Command K then
         andThen readU16 (\<lambda>symId.
         andThen (modifiers K) (\<lambda>m.
         andThen readString (\<lambda>n'.
         andThen (Rehydrator_type (symbol n K)) (\<lambda>ty.
         andThen readU8 (\<lambda>storage.
         andThen (Rehydrator_takeOwnershipOfSymbol
           (Variable m n' (fst ty) True (uint storage))) (\<lambda>result.
         andThen (addSymbol (unat symId) (Some result)) (\<lambda>u.
         yield (Some result))))))))
       else failWith SkASSERT)"

subsection \<open>Rehydrator::symbolTable\<close>

text \<open>
  Modelled from the spec: the constructors of \<open>SymbolTable\<close> are declared outside the
  sources at hand. A new table has the parent and the builtin flag it is given and
  holds no symbol; it is allocated at the end of the store of tables.
\<close>

definition newSymbolTable :: "nat option \<Rightarrow> bool \<Rightarrow> nat decoder" where
  "newSymbolTable parent builtin s =
     Inr (length (tables (heap s)),
          s\<lparr>heap := (heap s)\<lparr>tables := tables (heap s) @
            [\<lparr>fParent = parent, fBuiltin = builtin, fOwnedSymbols = [], fSymbolMap = []\<rparr>]\<rparr>\<rparr>)"

text \<open>
  The body of the second loop of \<open>symbolTable\<close>: it reads an index into the owned symbols
  just decoded and adds that symbol to the active table without ownership.
\<close>

definition addReference :: "nat option list \<Rightarrow> unit decoder" where
  "addReference ownedSymbols =
     andThen readU16 (\<lambda>index.
       if unat index < length ownedSymbols
       then Rehydrator_addWithoutOwnership (ownedSymbols ! unat index)
       else failWith UndefinedBehaviour)"

text \<open>
  The state in which \<open>symbolTable\<close> decodes the owned symbols: the new table, builtin and
  empty, is at the end of the store and is the active table.
\<close>

definition pushTable :: "bool \<Rightarrow> Rehydrator \<Rightarrow> Rehydrator" where
  "pushTable inherit s =
     s\<lparr>heap := (heap s)\<lparr>tables := tables (heap s) @
          [\<lparr>fParent = (if inherit then fSymbolTable s else None), fBuiltin = True,
            fOwnedSymbols = [], fSymbolMap = []\<rparr>]\<rparr>,
       fSymbolTable := Some (length (tables (heap s)))\<rparr>"

definition symbolTable :: "nat \<Rightarrow> Constants \<Rightarrow> bool \<Rightarrow> nat option decoder" where
  "symbolTable n K inherit =
     andThen readU8 (\<lambda>command.
       if uint command = kVoid_Command K then yield None
       else if uint command \<noteq> kSymbolTable_Command K then failWith SkASSERT
       else
         andThen readU16 (\<lambda>ownedCount s.
           let oldTable = fSymbolTable s in
           andThen (newSymbolTable (if inherit then fSymbolTable s else None) True) (\<lambda>result s1.
             andThen (repeat (unat ownedCount) (symbol n K)) (\<lambda>ownedSymbols.
             andThen readU16 (\<lambda>symbolCount.
             andThen (repeat (unat symbolCount) (addReference ownedSymbols)) (\<lambda>us s2.
             Inr (Some result, s2\<lparr>fSymbolTable := oldTable\<rparr>))))
             (s1\<lparr>fSymbolTable := Some result\<rparr>)) s))"

subsection \<open>The constructor\<close>

text \<open>
  The constructor is given the stores, the root symbol table and the buffer. It asserts
  that the table is not null and is builtin, and moves the cursor past the string data,
  whose length the first two bytes give.
\<close>

definition Rehydrator_new :: "Heap \<Rightarrow> nat option \<Rightarrow> 8 word list \<Rightarrow> error + Rehydrator" where
  "Rehydrator_new h symbolTable' src =
     (case symbolTable' of
        None \<Rightarrow> Inl SkASSERT
      | Some t \<Rightarrow>
          if t < length (tables h) then
            (if \<not> isBuiltin (tables h ! t) then Inl SkASSERT
             else
               (case readU16 \<lparr>fStart = src, fIP = 0, fSymbolTable = Some t, fSymbols = [],
                              heap = h\<rparr> of
                  Inl e \<Rightarrow> Inl e
                | Inr (n, s) \<Rightarrow> Inr (s\<lparr>fIP := fIP s + unat n\<rparr>)))
          else Inl UndefinedBehaviour)"

subsection \<open>A sample stream\<close>

text \<open>
  A numbering of the commands for concrete streams, and a buffer: two bytes with the
  length of the string data, the string \<open>E\<close>, an enum type registered under the id 1, and
  a back-reference to the id 0. \<open>decodeTwo\<close> decodes two symbols one after the other.
  \<open>tableStream\<close> holds, after the same string data, a symbol table with one owned symbol,
  an enum type, and one reference to it, and then the void marker.
\<close>

definition sampleConstants :: Constants where
  "sampleConstants =
     \<lparr>kArrayType_Command = 0, kEnumType_Command = 1, kFunctionDeclaration_Command = 2,
      kField_Command = 3, kStructType_Command = 4, kSymbolRef_Command = 5,
      kSymbolAlias_Command = 6, kSystemType_Command = 7, kUnresolvedFunction_Command = 8,
      kVariable_Command = 9, kBuiltinLayout_Command = 10, kDefaultLayout_Command = 11,
      kLayout_Command = 12, kDefaultModifiers_Command = 13, kModifiers8Bit_Command = 14,
      kModifiers_Command = 15, kVoid_Command = 16, kSymbolTable_Command = 17,
      kUnsizedArray = - 1\<rparr>"

definition tableStream :: "8 word list" where
  "tableStream = [2, 0, 1, 69, 17, 1, 0, 1, 0, 0, 2, 0, 1, 0, 0, 0, 16]"







subsection \<open>What decoding leaves in place\<close>

text \<open>
  \<open>frame s s'\<close>: the active table and the buffer are the same in both states, and the
  tables of the store have the same parents and builtin flags. \<open>keeps m\<close>: every run of
  the decoder \<open>m\<close> that returns leaves this in place.
\<close>

definition frame :: "Rehydrator \<Rightarrow> Rehydrator \<Rightarrow> bool" where
  "frame s s' \<longleftrightarrow>
     fSymbolTable s' = fSymbolTable s \<and> fStart s' = fStart s
     \<and> map fBuiltin (tables (heap s')) = map fBuiltin (tables (heap s))
     \<and> map fParent (tables (heap s')) = map fParent (tables (heap s))"

definition keeps :: "'a decoder \<Rightarrow> bool" where
  "keeps m \<longleftrightarrow> (\<forall>s a s'. m s = Inr (a, s') \<longrightarrow> frame s s')"


definition tableStart :: Rehydrator where
  "tableStart =
     \<lparr>fStart = tableStream, fIP = 4, fSymbolTable = Some 0, fSymbols = [], heap = sampleHeap\<rparr>"

subsection \<open>What decoding adds\<close>






section \<open>Properties of Type::coercionCost\<close>

lemma coercionCost_scalar_numbers:
  assumes "isScalar a" and "isNumber a" and "isNumber b" and "a \<noteq> b"
  shows "coercionCost a b =
     (if isLiteral a \<and> isInteger a then Some Free
      else if numberKind a \<noteq> numberKind b then Some Impossible
      else if priority b \<ge> priority a then Some (Normal (priority b - priority a))
      else Some (Narrowing (priority a - priority b)))"
  using assms
  by (subst coercionCost.simps) (simp add: isScalar_def isVector_def isMatrix_def)

lemma coercionCost_same: "coercionCost a a = Some Free"
  by (subst coercionCost.simps) simp

lemma coercibleIndex_None: "coercibleIndex ts b k = None \<longleftrightarrow> b \<notin> set ts"
  by (induction ts arbitrary: k) auto

lemma coercibleIndex_first:
  "i < length ts \<Longrightarrow> ts ! i = b \<Longrightarrow> \<forall>j<i. ts ! j \<noteq> b \<Longrightarrow>
   coercibleIndex ts b k = Some (k + i)"
proof (induction ts arbitrary: k i)
  case Nil
  then show ?case by simp
next
  case (Cons t ts)
  show ?case
  proof (cases i)
    case 0
    with Cons.prems show ?thesis by simp
  next
    case (Suc m)
    from Cons.prems Suc have "t \<noteq> b" by auto
    moreover from Cons.prems Suc have "m < length ts" "ts ! m = b" "\<forall>j<m. ts ! j \<noteq> b"
      by auto
    then have "coercibleIndex ts b (Suc k) = Some (Suc k + m)"
      by (rule Cons.IH)
    ultimately show ?thesis using Suc by simp
  qed
qed

text \<open>
  C1, as stated, at the integer literal type and \<open>int\<close>: both are scalar numbers of the
  signed kind and they differ, yet the cost is \<open>Free\<close>.
\<close>

theorem coercionCost_free_iff_equal_counterexample:
  "isScalar intLiteralType \<and> isNumber intLiteralType \<and> isScalar intType \<and> isNumber intType
   \<and> numberKind intLiteralType = numberKind intType
   \<and> \<not> (coercionCost intLiteralType intType = Some Free \<longleftrightarrow> intLiteralType = intType)"
  by (subst coercionCost.simps)
     (simp add: intLiteralType_def intType_def scalarDescriptor_def isScalar_def isVector_def
        isMatrix_def isNumber_def isInteger_def isSigned_def isFloat_def)

text \<open>
  C1 (amended): for scalar numeric types \<open>a\<close> and \<open>b\<close> of the same number-kind, where \<open>a\<close>
  is not an integer literal type, \<open>coercionCost a b\<close> is \<open>Free\<close> if and only if \<open>a = b\<close>,
  \<open>Normal (priority b - priority a)\<close> if and only if \<open>a \<noteq> b\<close> and
  \<open>priority b \<ge> priority a\<close>, and \<open>Narrowing (priority a - priority b)\<close> if and only if
  \<open>a \<noteq> b\<close> and \<open>priority b < priority a\<close>.
\<close>

theorem coercionCost_same_number_kind:
  assumes "isScalar a" and "isScalar b" and "isNumber a" and "isNumber b"
    and "numberKind a = numberKind b"
    and "\<not> (isLiteral a \<and> isInteger a)"
  shows "(coercionCost a b = Some Free \<longleftrightarrow> a = b)
       \<and> (coercionCost a b = Some (Normal (priority b - priority a))
            \<longleftrightarrow> a \<noteq> b \<and> priority b \<ge> priority a)
       \<and> (coercionCost a b = Some (Narrowing (priority a - priority b))
            \<longleftrightarrow> a \<noteq> b \<and> priority b < priority a)"
proof (cases "a = b")
  case True
  then show ?thesis by (simp add: coercionCost_same)
next
  case False
  with assms show ?thesis by (simp add: coercionCost_scalar_numbers)
qed

theorem coercionCost_same_number_kind_witness:
  "coercionCost halfType floatType = Some (Normal 1)
   \<and> coercionCost floatType halfType = Some (Narrowing 1)
   \<and> coercionCost halfType halfType = Some Free"
proof -
  have s: "isScalar halfType" "isScalar floatType" "isNumber halfType" "isNumber floatType"
    "numberKind halfType = numberKind floatType" "numberKind floatType = numberKind halfType"
    "\<not> (isLiteral halfType \<and> isInteger halfType)"
    "\<not> (isLiteral floatType \<and> isInteger floatType)"
    by (simp_all add: halfType_def floatType_def scalarDescriptor_def isScalar_def isNumber_def
        isFloat_def)
  have d: "halfType \<noteq> floatType" "priority halfType = 9" "priority floatType = 10"
    by (simp_all add: halfType_def floatType_def scalarDescriptor_def)
  from coercionCost_same_number_kind [OF s(1) s(2) s(3) s(4) s(5) s(7)]
    coercionCost_same_number_kind [OF s(2) s(1) s(4) s(3) s(6) s(8)]
    coercionCost_same_number_kind [OF s(1) s(1) s(3) s(3) refl s(7)] d
  show ?thesis by simp
qed

text \<open>
  C8: an integer literal scalar type coerces to every numeric type for \<open>Free\<close>, whether or
  not the two types or their number-kinds differ.
\<close>

theorem coercionCost_integer_literal_free:
  assumes "isScalar l" and "isLiteral l" and "isInteger l" and "isNumber n"
  shows "coercionCost l n = Some Free"
proof (cases "l = n")
  case True
  then show ?thesis by (simp add: coercionCost_same)
next
  case False
  from assms have "isNumber l" by (simp add: isNumber_def)
  with assms False show ?thesis by (simp add: coercionCost_scalar_numbers)
qed

theorem coercionCost_integer_literal_free_witness:
  "intLiteralType \<noteq> floatType \<and> numberKind intLiteralType \<noteq> numberKind floatType
   \<and> coercionCost intLiteralType floatType = Some Free"
proof -
  have "isScalar intLiteralType" "isLiteral intLiteralType" "isInteger intLiteralType"
    "isNumber floatType"
    by (simp_all add: intLiteralType_def floatType_def scalarDescriptor_def isScalar_def
        isNumber_def isInteger_def isSigned_def isFloat_def)
  then have "coercionCost intLiteralType floatType = Some Free"
    by (rule coercionCost_integer_literal_free)
  then show ?thesis
    by (simp add: intLiteralType_def floatType_def scalarDescriptor_def)
qed

text \<open>
  C2, as stated, at the integer literal type and \<open>float\<close>: two scalars of different
  number-kinds, the source without a coercible-type list, and the cost is \<open>Free\<close>, not
  \<open>Impossible\<close>.
\<close>

theorem coercionCost_different_kinds_counterexample:
  "isScalar intLiteralType \<and> isScalar floatType
   \<and> numberKind intLiteralType \<noteq> numberKind floatType
   \<and> fCoercibleTypes intLiteralType = None
   \<and> coercionCost intLiteralType floatType \<noteq> Some Impossible"
  by (subst coercionCost.simps)
     (simp add: intLiteralType_def floatType_def scalarDescriptor_def isScalar_def isVector_def
        isMatrix_def isNumber_def isInteger_def isSigned_def isFloat_def)

text \<open>
  C2 (amended): \<open>coercionCost a b\<close> is \<open>Impossible\<close> when \<open>a\<close> and \<open>b\<close> are vectors with
  different column counts, when they are matrices with different column or row counts,
  and when they are scalars of different number-kinds with no entry for \<open>b\<close> in the
  coercible-type list of \<open>a\<close>, unless \<open>a\<close> is an integer literal type and \<open>b\<close> a number.
  When the shapes of two vectors or of two matrices match, the cost is the cost of
  coercing the component types. When none of the earlier rules applies (the types differ,
  they are not both vectors, \<open>a\<close> is not a matrix, they are not both numbers) and \<open>b\<close> first
  appears at index \<open>i\<close> of the coercible-type list of \<open>a\<close>, the cost is \<open>Normal (i + 1)\<close>.
\<close>

theorem coercionCost_shapes_and_coercible_list:
  "(isVector a \<and> isVector b \<and> columns a \<noteq> columns b
      \<longrightarrow> coercionCost a b = Some Impossible)
   \<and> (isMatrix a \<and> isMatrix b \<and> (columns a \<noteq> columns b \<or> rows a \<noteq> rows b)
      \<longrightarrow> coercionCost a b = Some Impossible)
   \<and> (isScalar a \<and> isScalar b \<and> numberKind a \<noteq> numberKind b
       \<and> \<not> (isLiteral a \<and> isInteger a \<and> isNumber b)
       \<and> (\<forall>ts. fCoercibleTypes a = Some ts \<longrightarrow> b \<notin> set ts)
      \<longrightarrow> coercionCost a b = Some Impossible)
   \<and> (isVector a \<and> isVector b \<and> columns a = columns b
      \<longrightarrow> coercionCost a b = coercionCost (componentType a) (componentType b))
   \<and> (isMatrix a \<and> isMatrix b \<and> columns a = columns b \<and> rows a = rows b
      \<longrightarrow> coercionCost a b = coercionCost (componentType a) (componentType b))
   \<and> (a \<noteq> b \<and> \<not> (isVector a \<and> isVector b) \<and> \<not> isMatrix a
       \<and> \<not> (isNumber a \<and> isNumber b)
       \<and> fCoercibleTypes a = Some ts \<and> i < length ts \<and> ts ! i = b \<and> (\<forall>j<i. ts ! j \<noteq> b)
      \<longrightarrow> coercionCost a b = Some (Normal (int i + 1)))"
proof (intro conjI impI)
  assume "isVector a \<and> isVector b \<and> columns a \<noteq> columns b"
  then show "coercionCost a b = Some Impossible"
    by (subst coercionCost.simps) auto
next
  assume h: "isMatrix a \<and> isMatrix b \<and> (columns a \<noteq> columns b \<or> rows a \<noteq> rows b)"
  then have "a \<noteq> b" by auto
  with h show "coercionCost a b = Some Impossible"
    by (subst coercionCost.simps) (auto simp: isVector_def isMatrix_def)
next
  assume h: "isScalar a \<and> isScalar b \<and> numberKind a \<noteq> numberKind b
       \<and> \<not> (isLiteral a \<and> isInteger a \<and> isNumber b)
       \<and> (\<forall>ts. fCoercibleTypes a = Some ts \<longrightarrow> b \<notin> set ts)"
  then have "a \<noteq> b" by auto
  moreover from h have "\<And>ts. fCoercibleTypes a = Some ts \<Longrightarrow> coercibleIndex ts b 0 = None"
    by (simp add: coercibleIndex_None)
  ultimately show "coercionCost a b = Some Impossible"
    using h
    by (subst coercionCost.simps)
       (auto simp: isScalar_def isVector_def isMatrix_def split: option.splits)
next
  assume h: "isVector a \<and> isVector b \<and> columns a = columns b"
  show "coercionCost a b = coercionCost (componentType a) (componentType b)"
  proof (cases "a = b")
    case True
    then show ?thesis by (simp add: coercionCost_same)
  next
    case False
    with h show ?thesis by (subst coercionCost.simps) simp
  qed
next
  assume h: "isMatrix a \<and> isMatrix b \<and> columns a = columns b \<and> rows a = rows b"
  show "coercionCost a b = coercionCost (componentType a) (componentType b)"
  proof (cases "a = b")
    case True
    then show ?thesis by (simp add: coercionCost_same)
  next
    case False
    with h show ?thesis
      by (subst coercionCost.simps) (simp add: isVector_def isMatrix_def)
  qed
next
  assume h: "a \<noteq> b \<and> \<not> (isVector a \<and> isVector b) \<and> \<not> isMatrix a
       \<and> \<not> (isNumber a \<and> isNumber b)
       \<and> fCoercibleTypes a = Some ts \<and> i < length ts \<and> ts ! i = b \<and> (\<forall>j<i. ts ! j \<noteq> b)"
  then have "coercibleIndex ts b 0 = Some (0 + i)"
    by (intro coercibleIndex_first) auto
  with h show "coercionCost a b = Some (Normal (int i + 1))"
    by (subst coercionCost.simps) auto
qed

theorem coercionCost_shapes_and_coercible_list_witness:
  "coercionCost float2Type float3Type = Some Impossible
   \<and> coercionCost float2x2Type float3x3Type = Some Impossible
   \<and> coercionCost boolType intType = Some Impossible
   \<and> coercionCost half2Type float2Type = coercionCost halfType floatType
   \<and> coercionCost half2x2Type float2x2Type = coercionCost halfType floatType
   \<and> coercionCost genTypeType float2Type = Some (Normal 2)"
proof -
  note defs = float2Type_def float3Type_def half2Type_def float2x2Type_def float3x3Type_def
    half2x2Type_def boolType_def intType_def floatType_def halfType_def genTypeType_def
    scalarDescriptor_def vectorDescriptor_def matrixDescriptor_def componentType_def
    isScalar_def isVector_def isMatrix_def isNumber_def isInteger_def isSigned_def
    isUnsigned_def isFloat_def
  have "coercionCost float2Type float3Type = Some Impossible"
    using coercionCost_shapes_and_coercible_list [where a = float2Type and b = float3Type]
    by (simp add: defs)
  moreover have "coercionCost float2x2Type float3x3Type = Some Impossible"
    using coercionCost_shapes_and_coercible_list [where a = float2x2Type and b = float3x3Type]
    by (simp add: defs)
  moreover have "coercionCost boolType intType = Some Impossible"
    using coercionCost_shapes_and_coercible_list [where a = boolType and b = intType]
    by (simp add: defs)
  moreover have "coercionCost half2Type float2Type = coercionCost halfType floatType"
    using coercionCost_shapes_and_coercible_list [where a = half2Type and b = float2Type]
    by (simp add: defs)
  moreover have "coercionCost half2x2Type float2x2Type = coercionCost halfType floatType"
    using coercionCost_shapes_and_coercible_list [where a = half2x2Type and b = float2x2Type]
    by (simp add: defs)
  moreover have "coercionCost genTypeType float2Type = Some (Normal 2)"
    using coercionCost_shapes_and_coercible_list [where a = genTypeType and b = float2Type
        and ts = "[floatType, float2Type, float3Type]" and i = 1]
    by (simp add: defs)
  ultimately show ?thesis by simp
qed

section \<open>Properties of Type::toCompound\<close>











section \<open>Properties of Type::checkForOutOfRangeLiteral\<close>

lemma checkSlots_reports:
  "checkSlots sub this expr valueExpr slots (found, ctx) =
     (found \<or> filter (outOfRange this)
        (concat (map (\<lambda>slot. case sub valueExpr slot of
                               Some (IntLiteral o' t' val) \<Rightarrow> [val] | _ \<Rightarrow> []) slots)) \<noteq> [],
      ctx\<lparr>fErrors := fErrors ctx @
        map (\<lambda>val. (Expression_fOffset expr,
               ''integer is out of range for type '' @ [CHR 0x27] @ displayName this
               @ [CHR 0x27] @ '': '' @ to_string val))
          (filter (outOfRange this)
             (concat (map (\<lambda>slot. case sub valueExpr slot of
                                    Some (IntLiteral o' t' val) \<Rightarrow> [val] | _ \<Rightarrow> []) slots)))\<rparr>)"
proof (induction slots arbitrary: found ctx)
  case Nil
  then show ?case by simp
next
  case (Cons slot slots)
  show ?case
  proof (cases "sub valueExpr slot")
    case None
    then show ?thesis by (simp add: Cons.IH)
  next
    case (Some sube)
    then show ?thesis
      by (cases sube) (simp_all add: Cons.IH outOfRange_def error_def)
  qed
qed

text \<open>
  C6: when the component type of \<open>this\<close> is an integer type, the errors reported are, in
  slot order, one for each integer-literal sub-value of the folded expression that lies
  outside the bounds of the component type, each at the offset of \<open>expr\<close>, and no other:
  none for a value in range, none for a slot holding a floating-point or boolean
  literal or no constant. When the component type is not an integer type nothing is
  reported. The result is true if and only if an error was reported.
\<close>

theorem checkForOutOfRangeLiteral_reports:
  assumes "checkForOutOfRangeLiteral folder sub this ctx expr = (found, ctx')"
  shows "ctx' = ctx\<lparr>fErrors := fErrors ctx @
           (if isInteger (componentType this) then
              map (\<lambda>val. (Expression_fOffset expr,
                     ''integer is out of range for type '' @ [CHR 0x27] @ displayName this
                     @ [CHR 0x27] @ '': '' @ to_string val))
                (filter (outOfRange this) (integerLiteralValues sub (folder expr)))
            else [])\<rparr>
         \<and> (found \<longleftrightarrow> fErrors ctx' \<noteq> fErrors ctx)"
  using assms
  by (auto simp: checkForOutOfRangeLiteral_def Let_def checkSlots_reports
      integerLiteralValues_def split: if_splits)

theorem checkForOutOfRangeLiteral_reports_witness:
  "checkForOutOfRangeLiteral (\<lambda>e. e) short2Slots short2Type
       \<lparr>fErrors = [], fAllowNarrowingConversions = False\<rparr> short2Constant
     = (True, \<lparr>fErrors = [(17, ''integer is out of range for type 'short2': 40000'')],
               fAllowNarrowingConversions = False\<rparr>)
   \<and> checkForOutOfRangeLiteral (\<lambda>e. e) short2Slots floatType
       \<lparr>fErrors = [], fAllowNarrowingConversions = False\<rparr> (IntLiteral 3 intLiteralType 40000)
     = (False, \<lparr>fErrors = [], fAllowNarrowingConversions = False\<rparr>)"
proof -
  obtain f c where r: "checkForOutOfRangeLiteral (\<lambda>e. e) short2Slots short2Type
       \<lparr>fErrors = [], fAllowNarrowingConversions = False\<rparr> short2Constant = (f, c)"
    by (cases "checkForOutOfRangeLiteral (\<lambda>e. e) short2Slots short2Type
       \<lparr>fErrors = [], fAllowNarrowingConversions = False\<rparr> short2Constant")
  have i: "isInteger (componentType short2Type)"
    "integerLiteralValues short2Slots short2Constant = [5, 40000]"
    "filter (outOfRange short2Type) [5, 40000] = [40000]"
    "displayName short2Type = ''short2''" "to_string 40000 = ''40000''"
    by (simp_all add: short2Type_def short2Constant_def shortType_def vectorDescriptor_def
        scalarDescriptor_def componentType_def isInteger_def isSigned_def
        integerLiteralValues_def outOfRange_def to_string_def upt_rec)
  from checkForOutOfRangeLiteral_reports [OF r] i
  have "c = \<lparr>fErrors = [(17, ''integer is out of range for type 'short2': 40000'')],
               fAllowNarrowingConversions = False\<rparr>" "f"
    by (simp_all add: short2Constant_def)
  with r have 1: "checkForOutOfRangeLiteral (\<lambda>e. e) short2Slots short2Type
       \<lparr>fErrors = [], fAllowNarrowingConversions = False\<rparr> short2Constant
     = (True, \<lparr>fErrors = [(17, ''integer is out of range for type 'short2': 40000'')],
               fAllowNarrowingConversions = False\<rparr>)"
    by simp
  have 2: "checkForOutOfRangeLiteral (\<lambda>e. e) short2Slots floatType
       \<lparr>fErrors = [], fAllowNarrowingConversions = False\<rparr> (IntLiteral 3 intLiteralType 40000)
     = (False, \<lparr>fErrors = [], fAllowNarrowingConversions = False\<rparr>)"
    by (simp add: checkForOutOfRangeLiteral_def floatType_def scalarDescriptor_def
        componentType_def isInteger_def isSigned_def isUnsigned_def)
  from 1 2 show ?thesis by simp
qed

section \<open>Properties of Type::coerceExpression\<close>

text \<open>
  C5: for a non-null expression \<open>e\<close> and a target type \<open>this\<close>, \<open>coerceExpression\<close> reports
  an error at the offset of \<open>e\<close> and returns null when \<open>e\<close> is a function reference or a
  type reference; returns \<open>e\<close> itself and reports nothing when the type of \<open>e\<close> is \<open>this\<close>;
  reports an error and returns null when the coercion cost from the type of \<open>e\<close> to
  \<open>this\<close> is not possible under the setting for narrowing conversions; and otherwise
  returns \<open>e\<close> wrapped in a scalar cast when \<open>this\<close> is scalar, in a compound cast when
  \<open>this\<close> is a vector or a matrix, reporting nothing.
\<close>

theorem coerceExpression_cases:
  "(is_FunctionReference e \<longrightarrow>
      coerceExpression this (Some e) ctx =
        Some (None, error ctx (Expression_fOffset e) ''expected '(' to begin function call''))
   \<and> (is_TypeReference e \<longrightarrow>
      coerceExpression this (Some e) ctx =
        Some (None, error ctx (Expression_fOffset e)
                ''expected '(' to begin constructor invocation''))
   \<and> (\<not> is_FunctionReference e \<and> \<not> is_TypeReference e \<and> Expression_type e = this \<longrightarrow>
      coerceExpression this (Some e) ctx = Some (Some e, ctx))
   \<and> (\<not> is_FunctionReference e \<and> \<not> is_TypeReference e \<and> Expression_type e \<noteq> this
       \<and> coercionCost (Expression_type e) this = Some cost
       \<and> \<not> isPossible cost (fAllowNarrowingConversions ctx) \<longrightarrow>
      coerceExpression this (Some e) ctx =
        Some (None, error ctx (Expression_fOffset e)
                (''expected '' @ [CHR 0x27] @ displayName this @ [CHR 0x27]
                 @ '', but found '' @ [CHR 0x27] @ displayName (Expression_type e)
                 @ [CHR 0x27])))
   \<and> (\<not> is_FunctionReference e \<and> \<not> is_TypeReference e \<and> Expression_type e \<noteq> this
       \<and> coercionCost (Expression_type e) this = Some cost
       \<and> isPossible cost (fAllowNarrowingConversions ctx) \<and> isScalar this \<longrightarrow>
      coerceExpression this (Some e) ctx =
        Some (Some (ConstructorScalarCast (Expression_fOffset e) this e), ctx))
   \<and> (\<not> is_FunctionReference e \<and> \<not> is_TypeReference e \<and> Expression_type e \<noteq> this
       \<and> coercionCost (Expression_type e) this = Some cost
       \<and> isPossible cost (fAllowNarrowingConversions ctx)
       \<and> (isVector this \<or> isMatrix this) \<longrightarrow>
      coerceExpression this (Some e) ctx =
        Some (Some (ConstructorCompoundCast (Expression_fOffset e) this e), ctx))"
proof -
  have ft: "is_FunctionReference e \<Longrightarrow> \<not> is_TypeReference e"
    by (cases e) simp_all
  have vs: "isVector this \<or> isMatrix this \<Longrightarrow> \<not> isScalar this"
    by (auto simp: isVector_def isMatrix_def isScalar_def)
  show ?thesis
    using ft vs
    by (auto simp: coerceExpression_def Let_def Expression_coercionCost_def)
qed

lemma coercionCost_sample_costs:
  "coercionCost intLiteralType floatType = Some Free"
  "coercionCost floatType halfType = Some (Narrowing 1)"
  "coercionCost intType boolType = Some Impossible"
  "coercionCost halfType floatType = Some (Normal 1)"
  by (subst coercionCost.simps,
      simp add: intLiteralType_def floatType_def halfType_def intType_def boolType_def
        scalarDescriptor_def isVector_def isMatrix_def isNumber_def isInteger_def isSigned_def
        isUnsigned_def isFloat_def)+

lemma coercionCost_half2_float2: "coercionCost half2Type float2Type = Some (Normal 1)"
proof -
  have "coercionCost half2Type float2Type = coercionCost halfType floatType"
    by (subst coercionCost.simps)
       (simp add: half2Type_def float2Type_def vectorDescriptor_def halfType_def floatType_def
          scalarDescriptor_def isVector_def componentType_def)
  then show ?thesis by (simp add: coercionCost_sample_costs)
qed

theorem coerceExpression_cases_witness:
  "coerceExpression floatType (Some (FunctionReference 3 voidType))
       \<lparr>fErrors = [], fAllowNarrowingConversions = False\<rparr>
     = Some (None, \<lparr>fErrors = [(3, ''expected '(' to begin function call'')],
                    fAllowNarrowingConversions = False\<rparr>)
   \<and> coerceExpression floatType (Some (TypeReference 4 floatType))
       \<lparr>fErrors = [], fAllowNarrowingConversions = False\<rparr>
     = Some (None, \<lparr>fErrors = [(4, ''expected '(' to begin constructor invocation'')],
                    fAllowNarrowingConversions = False\<rparr>)
   \<and> coerceExpression floatType (Some (FloatLiteral 5 floatType 2))
       \<lparr>fErrors = [], fAllowNarrowingConversions = False\<rparr>
     = Some (Some (FloatLiteral 5 floatType 2),
             \<lparr>fErrors = [], fAllowNarrowingConversions = False\<rparr>)
   \<and> coerceExpression halfType (Some (OtherExpression 6 floatType))
       \<lparr>fErrors = [], fAllowNarrowingConversions = False\<rparr>
     = Some (None, \<lparr>fErrors = [(6, ''expected 'half', but found 'float'' @ [CHR 0x27])],
                    fAllowNarrowingConversions = False\<rparr>)
   \<and> coerceExpression floatType (Some (IntLiteral 7 intLiteralType 1))
       \<lparr>fErrors = [], fAllowNarrowingConversions = False\<rparr>
     = Some (Some (ConstructorScalarCast 7 floatType (IntLiteral 7 intLiteralType 1)),
             \<lparr>fErrors = [], fAllowNarrowingConversions = False\<rparr>)
   \<and> coerceExpression float2Type (Some (OtherExpression 8 half2Type))
       \<lparr>fErrors = [], fAllowNarrowingConversions = False\<rparr>
     = Some (Some (ConstructorCompoundCast 8 float2Type (OtherExpression 8 half2Type)),
             \<lparr>fErrors = [], fAllowNarrowingConversions = False\<rparr>)"
proof -
  note defs = error_def floatType_def halfType_def intLiteralType_def float2Type_def
    half2Type_def voidType_def scalarDescriptor_def vectorDescriptor_def isScalar_def
    isVector_def isMatrix_def
  let ?c = "\<lparr>fErrors = [], fAllowNarrowingConversions = False\<rparr>"
  have 1: "coerceExpression floatType (Some (FunctionReference 3 voidType)) ?c
     = Some (None, \<lparr>fErrors = [(3, ''expected '(' to begin function call'')],
                    fAllowNarrowingConversions = False\<rparr>)"
    using coerceExpression_cases [where e = "FunctionReference 3 voidType" and this = floatType
        and ctx = ?c]
    by (simp add: defs)
  have 2: "coerceExpression floatType (Some (TypeReference 4 floatType)) ?c
     = Some (None, \<lparr>fErrors = [(4, ''expected '(' to begin constructor invocation'')],
                    fAllowNarrowingConversions = False\<rparr>)"
    using coerceExpression_cases [where e = "TypeReference 4 floatType" and this = floatType
        and ctx = ?c]
    by (simp add: defs)
  have 3: "coerceExpression floatType (Some (FloatLiteral 5 floatType 2)) ?c
     = Some (Some (FloatLiteral 5 floatType 2), ?c)"
    using coerceExpression_cases [where e = "FloatLiteral 5 floatType 2" and this = floatType
        and ctx = ?c]
    by simp
  have 4: "coerceExpression halfType (Some (OtherExpression 6 floatType)) ?c
     = Some (None, \<lparr>fErrors = [(6, ''expected 'half', but found 'float'' @ [CHR 0x27])],
                    fAllowNarrowingConversions = False\<rparr>)"
    using coerceExpression_cases [where e = "OtherExpression 6 floatType" and this = halfType
        and ctx = ?c and cost = "Narrowing 1"] coercionCost_sample_costs(2)
    by (simp add: defs)
  have 5: "coerceExpression floatType (Some (IntLiteral 7 intLiteralType 1)) ?c
     = Some (Some (ConstructorScalarCast 7 floatType (IntLiteral 7 intLiteralType 1)), ?c)"
    using coerceExpression_cases [where e = "IntLiteral 7 intLiteralType 1" and this = floatType
        and ctx = ?c and cost = Free] coercionCost_sample_costs(1)
    by (simp add: defs)
  have 6: "coerceExpression float2Type (Some (OtherExpression 8 half2Type)) ?c
     = Some (Some (ConstructorCompoundCast 8 float2Type (OtherExpression 8 half2Type)), ?c)"
    using coerceExpression_cases [where e = "OtherExpression 8 half2Type" and this = float2Type
        and ctx = ?c and cost = "Normal 1"] coercionCost_half2_float2
    by (simp add: defs)
  from 1 2 3 4 5 6 show ?thesis by simp
qed

section \<open>Properties of Type::clone\<close>

text \<open>
  The lookup returns in every store in which each table comes after its parent, as the
  tables that \<open>symbolTable\<close> allocates do: the chain of parents then ends before the bound
  is reached.
\<close>

lemma lookupChain_ends:
  assumes "\<forall>u<length ts. \<forall>q. fParent (ts ! u) = Some q \<longrightarrow> q < u"
    and "t < length ts" and "t < k"
  shows "\<exists>r. lookupChain k ts t n = Inr r"
  using assms(2,3)
proof (induction k arbitrary: t)
  case 0
  then show ?case by simp
next
  case (Suc k)
  show ?case
  proof (cases "map_of (fSymbolMap (ts ! t)) n")
    case (Some p)
    with Suc.prems show ?thesis by simp
  next
    case None
    show ?thesis
    proof (cases "fParent (ts ! t)")
      case None
      with \<open>map_of (fSymbolMap (ts ! t)) n = None\<close> Suc.prems show ?thesis by simp
    next
      case (Some q)
      with assms(1) Suc.prems have "q < t" by blast
      with Suc.prems have "q < length ts" "q < k" by simp_all
      then have "\<exists>r. lookupChain k ts q n = Inr r" by (rule Suc.IH)
      with Some \<open>map_of (fSymbolMap (ts ! t)) n = None\<close> Suc.prems show ?thesis by simp
    qed
  qed
qed

lemma lookup_ends:
  assumes "\<forall>u<length (tables h). \<forall>q. fParent (tables h ! u) = Some q \<longrightarrow> q < u"
    and "t < length (tables h)"
  shows "\<exists>r. lookup h t n = Inr r"
  unfolding lookup_def using assms by (intro lookupChain_ends) simp_all

lemma lookup_after_add:
  assumes "add st newSymbol h = Inr (p, h')"
  shows "lookup h' st (Symbol_name newSymbol) = Inr (Some p)"
proof -
  from assms have v: "st < length (tables h)"
    by (auto simp: add_def takeOwnershipOfSymbol_def split: if_splits)
  then obtain k where k: "length (tables h) = Suc k"
    by (cases "length (tables h)") auto
  from assms v have "tables h' = (tables h)[st := (tables h ! st)
       \<lparr>fOwnedSymbols := fOwnedSymbols (tables h ! st) @ [p],
        fSymbolMap := (Symbol_name newSymbol, p) # fSymbolMap (tables h ! st)\<rparr>]"
    by (auto simp: add_def takeOwnershipOfSymbol_def Let_def)
  with v k show ?thesis
    by (simp add: lookup_def)
qed

lemma add_result:
  assumes "st < length (tables h)"
  shows "\<exists>h'. add st newSymbol h = Inr (length (symbols h), h')
     \<and> symbols h' = symbols h @ [newSymbol]
     \<and> length (tables h') = length (tables h)
     \<and> fOwnedSymbols (tables h' ! st) = fOwnedSymbols (tables h ! st) @ [length (symbols h)]"
  using assms by (simp add: add_def takeOwnershipOfSymbol_def Let_def)

lemma clone_copies:
  assumes "this < length (symbols h)" and "symbols h ! this = TypeSymbol t"
    and "\<not> isInBuiltinTypes t" and "lookup h st (name t) = Inr None"
    and "st < length (tables h)"
    and "copy = (case typeKind t of
                   kArray \<Rightarrow> MakeArrayType (name t) (componentType t) (columns t)
                 | kStruct \<Rightarrow> MakeStructType (fOffset t) (name t) (Type.fields t)
                 | _ \<Rightarrow> MakeEnumType (name t))"
    and "typeKind t = kArray \<or> typeKind t = kStruct \<or> typeKind t = kEnum"
  shows "\<exists>h'. clone sk_debug this st h = Inr (Some (length (symbols h)), h')
     \<and> symbols h' = symbols h @ [TypeSymbol copy]
     \<and> fOwnedSymbols (tables h' ! st) = fOwnedSymbols (tables h ! st) @ [length (symbols h)]
     \<and> lookup h' st (name t) = Inr (Some (length (symbols h)))
     \<and> clone sk_debug this st h' = Inr (Some (length (symbols h)), h')"
proof -
  from add_result [OF assms(5), of "TypeSymbol copy"] obtain h' where
    a: "add st (TypeSymbol copy) h = Inr (length (symbols h), h')"
    and s: "symbols h' = symbols h @ [TypeSymbol copy]"
    and o: "fOwnedSymbols (tables h' ! st) = fOwnedSymbols (tables h ! st) @ [length (symbols h)]"
    by blast
  have n: "name copy = name t" and k: "typeKind copy = typeKind t"
    using assms(6,7)
    by (auto simp: MakeArrayType_def MakeStructType_def MakeEnumType_def)
  have c: "clone sk_debug this st h = Inr (Some (length (symbols h)), h')"
    using assms a by (auto simp: clone_def)
  from lookup_after_add [OF a] n
  have l: "lookup h' st (name t) = Inr (Some (length (symbols h)))"
    by simp
  have "clone sk_debug this st h' = Inr (Some (length (symbols h)), h')"
    using assms(1,2,3) s l k by (simp add: clone_def nth_append)
  with c s o l show ?thesis by blast
qed

text \<open>
  C3, as stated, at a type that is not builtin, is not found in the table and is neither
  an array, a struct nor an enum: where assertions are not compiled in, \<open>clone\<close> returns
  null and leaves the stores as they are; the call is not fatal.
\<close>

theorem clone_other_kind_counterexample:
  "symbols sampleHeap ! 3 = TypeSymbol orphanType \<and> \<not> isInBuiltinTypes orphanType
   \<and> typeKind orphanType = kOther \<and> lookup sampleHeap 1 (name orphanType) = Inr None
   \<and> clone False 3 1 sampleHeap = Inr (None, sampleHeap)"
  by (simp add: clone_def sampleHeap_def orphanType_def lookup_def)

text \<open>
  C3 (amended): let \<open>this\<close> point to the type \<open>t\<close>. In every build: if \<open>t\<close> is a builtin
  type, \<open>clone\<close> returns the pointer \<open>this\<close> and changes nothing. If the lookup of the name of
  \<open>t\<close> in the table finds a type of the same kind, as it does for a structurally equal type
  present there, \<open>clone\<close> returns that instance and changes nothing. If the lookup finds
  nothing and \<open>t\<close> is an array, a struct or an enum, \<open>clone\<close> allocates a copy with the name
  and the component and count, the offset and fields, or the name of \<open>t\<close> at a fresh
  address, the table owns it, a lookup of the name finds it, and a second call of \<open>clone\<close>
  returns the same instance and changes nothing. A type of any other kind that is not
  found is a fatal error where assertions are compiled in; without them \<open>clone\<close> returns
  null and changes nothing. Likewise a type of another kind found under the name fails
  an assertion where assertions are compiled in, and is returned without them.
\<close>

theorem clone_cases:
  assumes "this < length (symbols h)" and "symbols h ! this = TypeSymbol t"
  shows "(isInBuiltinTypes t \<longrightarrow> clone sk_debug this st h = Inr (Some this, h))
   \<and> (\<not> isInBuiltinTypes t \<and> lookup h st (name t) = Inr (Some p) \<and> p < length (symbols h)
       \<and> symbols h ! p = TypeSymbol t' \<and> typeKind t' = typeKind t \<longrightarrow>
      clone sk_debug this st h = Inr (Some p, h))
   \<and> (\<not> isInBuiltinTypes t \<and> lookup h st (name t) = Inr None \<and> st < length (tables h)
       \<and> (typeKind t = kArray \<or> typeKind t = kStruct \<or> typeKind t = kEnum) \<longrightarrow>
      (\<exists>h'. clone sk_debug this st h = Inr (Some (length (symbols h)), h')
         \<and> symbols h' = symbols h @
              [TypeSymbol (case typeKind t of
                   kArray \<Rightarrow> MakeArrayType (name t) (componentType t) (columns t)
                 | kStruct \<Rightarrow> MakeStructType (fOffset t) (name t) (Type.fields t)
                 | _ \<Rightarrow> MakeEnumType (name t))]
         \<and> fOwnedSymbols (tables h' ! st) = fOwnedSymbols (tables h ! st) @ [length (symbols h)]
         \<and> lookup h' st (name t) = Inr (Some (length (symbols h)))
         \<and> clone sk_debug this st h' = Inr (Some (length (symbols h)), h')))
   \<and> (\<not> isInBuiltinTypes t \<and> lookup h st (name t) = Inr None
       \<and> typeKind t \<noteq> kArray \<and> typeKind t \<noteq> kStruct \<and> typeKind t \<noteq> kEnum \<longrightarrow>
      clone True this st h = Inl SkDEBUGFAIL \<and> clone False this st h = Inr (None, h))
   \<and> (\<not> isInBuiltinTypes t \<and> lookup h st (name t) = Inr (Some p) \<and> p < length (symbols h)
       \<and> symbols h ! p = TypeSymbol t' \<and> typeKind t' \<noteq> typeKind t \<longrightarrow>
      clone True this st h = Inl SkASSERT \<and> clone False this st h = Inr (Some p, h))"
proof (intro conjI impI)
  assume "isInBuiltinTypes t"
  with assms show "clone sk_debug this st h = Inr (Some this, h)"
    by (simp add: clone_def)
next
  assume "\<not> isInBuiltinTypes t \<and> lookup h st (name t) = Inr (Some p) \<and> p < length (symbols h)
       \<and> symbols h ! p = TypeSymbol t' \<and> typeKind t' = typeKind t"
  with assms show "clone sk_debug this st h = Inr (Some p, h)"
    by (simp add: clone_def)
next
  assume "\<not> isInBuiltinTypes t \<and> lookup h st (name t) = Inr None \<and> st < length (tables h)
       \<and> (typeKind t = kArray \<or> typeKind t = kStruct \<or> typeKind t = kEnum)"
  with assms show "\<exists>h'. clone sk_debug this st h = Inr (Some (length (symbols h)), h')
         \<and> symbols h' = symbols h @
              [TypeSymbol (case typeKind t of
                   kArray \<Rightarrow> MakeArrayType (name t) (componentType t) (columns t)
                 | kStruct \<Rightarrow> MakeStructType (fOffset t) (name t) (Type.fields t)
                 | _ \<Rightarrow> MakeEnumType (name t))]
         \<and> fOwnedSymbols (tables h' ! st) = fOwnedSymbols (tables h ! st) @ [length (symbols h)]
         \<and> lookup h' st (name t) = Inr (Some (length (symbols h)))
         \<and> clone sk_debug this st h' = Inr (Some (length (symbols h)), h')"
    by (intro clone_copies) simp_all
next
  assume a: "\<not> isInBuiltinTypes t \<and> lookup h st (name t) = Inr None
       \<and> typeKind t \<noteq> kArray \<and> typeKind t \<noteq> kStruct \<and> typeKind t \<noteq> kEnum"
  with assms show "clone True this st h = Inl SkDEBUGFAIL"
    by (cases "typeKind t") (simp_all add: clone_def)
  from a assms show "clone False this st h = Inr (None, h)"
    by (cases "typeKind t") (simp_all add: clone_def)
next
  assume a: "\<not> isInBuiltinTypes t \<and> lookup h st (name t) = Inr (Some p) \<and> p < length (symbols h)
       \<and> symbols h ! p = TypeSymbol t' \<and> typeKind t' \<noteq> typeKind t"
  with assms show "clone True this st h = Inl SkASSERT"
    by (simp add: clone_def)
  from a assms show "clone False this st h = Inr (Some p, h)"
    by (simp add: clone_def)
qed

theorem clone_cases_witness:
  "clone True 0 1 sampleHeap = Inr (Some 0, sampleHeap)
   \<and> clone False 0 1 sampleHeap = Inr (Some 0, sampleHeap)
   \<and> clone True 1 2 sampleHeap = Inr (Some 1, sampleHeap)
   \<and> clone False 1 2 sampleHeap = Inr (Some 1, sampleHeap)
   \<and> (\<exists>h'. clone True 1 1 sampleHeap = Inr (Some 4, h')
          \<and> symbols h' = symbols sampleHeap @ [TypeSymbol rayType]
          \<and> fOwnedSymbols (tables h' ! 1) = [4] \<and> clone True 1 1 h' = Inr (Some 4, h'))
   \<and> clone True 3 1 sampleHeap = Inl SkDEBUGFAIL
   \<and> clone False 3 1 sampleHeap = Inr (None, sampleHeap)"
proof -
  note defs = sampleHeap_def rayType_def orphanType_def floatType_def scalarDescriptor_def
    MakeStructType_def lookup_def
  have 1: "clone b 0 1 sampleHeap = Inr (Some 0, sampleHeap)" for b
    using clone_cases [where this = 0 and h = sampleHeap and t = floatType and st = 1
        and sk_debug = b]
    by (simp add: defs)
  have 2: "clone b 1 2 sampleHeap = Inr (Some 1, sampleHeap)" for b
    using clone_cases [where this = 1 and h = sampleHeap and t = rayType and st = 2
        and p = 1 and t' = rayType and sk_debug = b]
    by (simp add: defs)
  have "\<exists>h'. clone True 1 1 sampleHeap = Inr (Some (length (symbols sampleHeap)), h')
         \<and> symbols h' = symbols sampleHeap @
              [TypeSymbol (case typeKind rayType of
                   kArray \<Rightarrow> MakeArrayType (name rayType) (componentType rayType) (columns rayType)
                 | kStruct \<Rightarrow> MakeStructType (fOffset rayType) (name rayType) (Type.fields rayType)
                 | _ \<Rightarrow> MakeEnumType (name rayType))]
         \<and> fOwnedSymbols (tables h' ! 1) =
             fOwnedSymbols (tables sampleHeap ! 1) @ [length (symbols sampleHeap)]
         \<and> lookup h' 1 (name rayType) = Inr (Some (length (symbols sampleHeap)))
         \<and> clone True 1 1 h' = Inr (Some (length (symbols sampleHeap)), h')"
    using clone_cases [where this = 1 and h = sampleHeap and t = rayType and st = 1
        and sk_debug = True]
    by (simp add: defs)
  moreover have "length (symbols sampleHeap) = 4" "fOwnedSymbols (tables sampleHeap ! 1) = []"
    "(case typeKind rayType of
        kArray \<Rightarrow> MakeArrayType (name rayType) (componentType rayType) (columns rayType)
      | kStruct \<Rightarrow> MakeStructType (fOffset rayType) (name rayType) (Type.fields rayType)
      | _ \<Rightarrow> MakeEnumType (name rayType)) = rayType"
    by (simp_all add: sampleHeap_def rayType_def MakeStructType_def)
  ultimately have 3: "\<exists>h'. clone True 1 1 sampleHeap = Inr (Some 4, h')
      \<and> symbols h' = symbols sampleHeap @ [TypeSymbol rayType]
      \<and> fOwnedSymbols (tables h' ! 1) = [4] \<and> clone True 1 1 h' = Inr (Some 4, h')"
    by auto
  have 4: "clone True 3 1 sampleHeap = Inl SkDEBUGFAIL \<and> clone False 3 1 sampleHeap = Inr (None, sampleHeap)"
    using clone_cases [where this = 3 and h = sampleHeap and t = orphanType and st = 1]
    by (simp add: defs)
  from 1 2 3 4 show ?thesis by blast
qed

section \<open>Properties of the rehydrator\<close>

lemma frame_refl: "frame s s"
  by (simp add: frame_def)

lemma frame_trans: "frame s t \<Longrightarrow> frame t u \<Longrightarrow> frame s u"
  by (simp add: frame_def)

lemma keeps_yield: "keeps (yield a)"
  by (simp add: keeps_def yield_def frame_refl)

lemma keeps_failWith: "keeps (failWith e)"
  by (simp add: keeps_def failWith_def)

lemma keeps_andThen:
  assumes "keeps m" and "\<And>a. keeps (f a)"
  shows "keeps (andThen m f)"
  unfolding keeps_def
proof (intro allI impI)
  fix s b s'
  assume r: "andThen m f s = Inr (b, s')"
  then obtain a t where m: "m s = Inr (a, t)" and f: "f a t = Inr (b, s')"
    by (auto simp: andThen_def split: sum.splits)
  from assms(1) m have "frame s t" by (auto simp: keeps_def)
  moreover from assms(2) f have "frame t s'" by (auto simp: keeps_def)
  ultimately show "frame s s'" by (rule frame_trans)
qed

lemma keeps_if: "keeps a \<Longrightarrow> keeps b \<Longrightarrow> keeps (if c then a else b)"
  by simp

lemma keeps_repeat:
  assumes "keeps m"
  shows "keeps (repeat k m)"
  unfolding keeps_def
proof (induction k)
  case 0
  show ?case by (simp add: frame_refl)
next
  case (Suc k)
  show ?case
  proof (intro allI impI)
    fix s xs s'
    assume r: "repeat (Suc k) m s = Inr (xs, s')"
    then obtain a t ys where m: "m s = Inr (a, t)" and k: "repeat k m t = Inr (ys, s')"
      by (auto split: sum.splits)
    from assms m have "frame s t" by (auto simp: keeps_def)
    moreover from Suc k have "frame t s'" by blast
    ultimately show "frame s s'" by (rule frame_trans)
  qed
qed

lemma keeps_readU8: "keeps readU8"
  by (auto simp: keeps_def readU8_def frame_def split: if_splits)

lemma keeps_readS8: "keeps readS8"
  unfolding readS8_def by (intro keeps_andThen keeps_readU8 keeps_yield)

lemma keeps_readU16: "keeps readU16"
  unfolding readU16_def by (intro keeps_andThen keeps_readU8 keeps_yield)

lemma keeps_readS16: "keeps readS16"
  unfolding readS16_def by (intro keeps_andThen keeps_readU16 keeps_yield)

lemma keeps_readU32: "keeps readU32"
  unfolding readU32_def by (intro keeps_andThen keeps_readU8 keeps_yield)

lemma keeps_readS32: "keeps readS32"
  unfolding readS32_def by (intro keeps_andThen keeps_readU32 keeps_yield)

lemma keeps_state_test:
  assumes "\<And>s a s'. f s = Inr (a, s') \<Longrightarrow> s' = s"
  shows "keeps f"
  unfolding keeps_def
proof (intro allI impI)
  fix s a s'
  assume "f s = Inr (a, s')"
  then have "s' = s" by (rule assms)
  then show "frame s s'" by (simp add: frame_refl)
qed

lemma keeps_readString: "keeps readString"
  unfolding readString_def
  by (intro keeps_andThen keeps_readU16 keeps_state_test) (auto simp: Let_def split: if_splits)

lemma keeps_addSymbol: "keeps (addSymbol i p)"
  by (auto simp: keeps_def addSymbol_def frame_def)

lemma keeps_symbolRef: "keeps symbolRef"
  unfolding symbolRef_def
  by (intro keeps_andThen keeps_readU16 keeps_state_test) (auto split: if_splits)

lemmas keeps_readers = keeps_readU8 keeps_readS8 keeps_readU16 keeps_readS16 keeps_readU32
  keeps_readS32 keeps_readString keeps_yield keeps_failWith

lemma keeps_layout: "keeps (layout K)"
  unfolding layout_def by (intro keeps_andThen keeps_if keeps_readers)

lemma keeps_modifiers: "keeps (modifiers K)"
  unfolding modifiers_def by (intro keeps_andThen keeps_if keeps_readers keeps_layout)

lemma keeps_Rehydrator_type:
  assumes "keeps d"
  shows "keeps (Rehydrator_type d)"
  unfolding Rehydrator_type_def
proof (rule keeps_andThen [OF assms])
  fix a
  show "keeps (\<lambda>s. case a of
         None \<Rightarrow> Inl UndefinedBehaviour
       | Some p \<Rightarrow>
           if p < length (symbols (heap s)) then
             (case symbols (heap s) ! p of
                TypeSymbol t \<Rightarrow> Inr ((p, t), s)
              | _ \<Rightarrow> Inl SkASSERT)
           else Inl UndefinedBehaviour)"
    by (rule keeps_state_test) (auto split: option.splits if_splits Symbol.splits)
qed

lemma keeps_functionDeclaration:
  assumes "keeps d"
  shows "keeps (functionDeclaration d)"
  unfolding functionDeclaration_def
proof (rule keeps_andThen [OF assms])
  fix a
  show "keeps (\<lambda>s. case a of
         None \<Rightarrow> Inl SkASSERT
       | Some p \<Rightarrow>
           if p < length (symbols (heap s)) then
             (case symbols (heap s) ! p of
                FunctionDeclaration m n ps r b \<Rightarrow> Inr (p, s)
              | _ \<Rightarrow> Inl SkASSERT)
           else Inl UndefinedBehaviour)"
    by (rule keeps_state_test) (auto split: option.splits if_splits Symbol.splits)
qed

lemma keeps_fieldName: "keeps (fieldName ow i)"
  by (rule keeps_state_test)
     (auto simp: fieldName_def split: option.splits if_splits Symbol.splits)

lemma keeps_functionsName: "keeps (functionsName fs)"
  by (rule keeps_state_test)
     (auto simp: functionsName_def split: list.splits if_splits)

lemma keeps_Rehydrator_lookup: "keeps (Rehydrator_lookup n)"
  by (rule keeps_state_test)
     (auto simp: Rehydrator_lookup_def split: option.splits sum.splits)

lemma map_update_same: "i < length xs \<Longrightarrow> (map f xs)[i := f (xs ! i)] = map f xs"
  by (induction xs arbitrary: i) (auto split: nat.splits)

lemma keeps_takeOwnershipOfSymbol: "keeps (Rehydrator_takeOwnershipOfSymbol x)"
  by (auto simp: keeps_def Rehydrator_takeOwnershipOfSymbol_def takeOwnershipOfSymbol_def
      frame_def Let_def map_update map_update_same split: option.splits sum.splits if_splits)

lemma keeps_addWithoutOwnership: "keeps (Rehydrator_addWithoutOwnership x)"
  by (auto simp: keeps_def Rehydrator_addWithoutOwnership_def addWithoutOwnership_def
      frame_def map_update map_update_same split: option.splits sum.splits if_splits)

lemma keeps_addReference: "keeps (addReference owned)"
  unfolding addReference_def
  by (intro keeps_andThen keeps_if keeps_readers keeps_addWithoutOwnership)

lemma keeps_symbolRef_command:
  "keeps (\<lambda>s. if length (fSymbols s) > i then Inr (fSymbols s ! i, s) else Inl SkASSERT)"
  by (rule keeps_state_test) (auto split: if_splits)

lemma keeps_systemType:
  "keeps (\<lambda>s. case result of
             None \<Rightarrow> Inl SkASSERT
           | Some p \<Rightarrow>
               if p < length (symbols (heap s)) then
                 (case symbols (heap s) ! p of
                    TypeSymbol t \<Rightarrow>
                      andThen (addSymbol i result) (\<lambda>u. yield result) s
                  | _ \<Rightarrow> Inl SkASSERT)
               else Inl UndefinedBehaviour)"
proof -
  have k: "keeps (andThen (addSymbol i result) (\<lambda>u. yield result))"
    by (intro keeps_andThen keeps_addSymbol keeps_yield)
  show ?thesis
    unfolding keeps_def
    using k by (auto simp: keeps_def split: option.splits if_splits Symbol.splits)
qed

lemma keeps_symbol: "keeps (symbol n K)"
proof (induction n)
  case 0
  show ?case by (simp add: keeps_failWith)
next
  case (Suc n)
  show ?case
    unfolding symbol.simps
    by (intro keeps_andThen keeps_if keeps_readers keeps_repeat keeps_modifiers
        keeps_Rehydrator_type keeps_functionDeclaration keeps_fieldName keeps_functionsName
        keeps_Rehydrator_lookup keeps_takeOwnershipOfSymbol keeps_addSymbol keeps_symbolRef
        keeps_symbolRef_command keeps_systemType Suc.IH)
qed

lemma andThenE:
  assumes "andThen m f s = Inr (b, s')"
  obtains a t where "m s = Inr (a, t)" and "f a t = Inr (b, s')"
  using assms by (auto simp: andThen_def split: sum.splits)

lemma keepsD: "keeps m \<Longrightarrow> m s = Inr (a, s') \<Longrightarrow> frame s s'"
  by (auto simp: keeps_def)


lemma readU8_result:
  "readU8 s = Inr (b, s') \<Longrightarrow> s' = s\<lparr>fIP := fIP s + 1\<rparr> \<and> b = fStart s ! fIP s"
  by (auto simp: readU8_def split: if_splits)

lemma readU16_result:
  "readU16 s = Inr (w, s') \<Longrightarrow> s' = s\<lparr>fIP := fIP s + 2\<rparr>"
  by (auto simp: readU16_def readU8_def andThen_def yield_def split: if_splits)




text \<open>The run of \<open>symbolTable\<close> that returns, step by step.\<close>

lemma symbolTable_runs:
  assumes "symbolTable n K inherit s = Inr (r, s')"
  obtains (void) command where "readU8 s = Inr (command, s')"
      and "uint command = kVoid_Command K" and "r = None"
  | (table) command s0 ownedCount s1 ownedSymbols s2 symbolCount s3 us s4
    where "readU8 s = Inr (command, s0)" and "uint command \<noteq> kVoid_Command K"
      and "uint command = kSymbolTable_Command K"
      and "readU16 s0 = Inr (ownedCount, s1)"
      and "heap s1 = heap s" and "fSymbolTable s1 = fSymbolTable s"
      and "r = Some (length (tables (heap s)))"
      and "repeat (unat ownedCount) (symbol n K) (pushTable inherit s1) = Inr (ownedSymbols, s2)"
      and "readU16 s2 = Inr (symbolCount, s3)"
      and "repeat (unat symbolCount) (addReference ownedSymbols) s3 = Inr (us, s4)"
      and "s' = s4\<lparr>fSymbolTable := fSymbolTable s\<rparr>"
proof -
  from assms obtain command s0 where c: "readU8 s = Inr (command, s0)"
    and rest: "(if uint command = kVoid_Command K then yield None
       else if uint command \<noteq> kSymbolTable_Command K then failWith SkASSERT
       else
         andThen readU16 (\<lambda>ownedCount s.
           let oldTable = fSymbolTable s in
           andThen (newSymbolTable (if inherit then fSymbolTable s else None) True) (\<lambda>result s1.
             andThen (repeat (unat ownedCount) (symbol n K)) (\<lambda>ownedSymbols.
             andThen readU16 (\<lambda>symbolCount.
             andThen (repeat (unat symbolCount) (addReference ownedSymbols)) (\<lambda>us s2.
             Inr (Some result, s2\<lparr>fSymbolTable := oldTable\<rparr>))))
             (s1\<lparr>fSymbolTable := Some result\<rparr>)) s)) s0 = Inr (r, s')"
    unfolding symbolTable_def by (rule andThenE)
  from readU8_result [OF c] have s0: "s0 = s\<lparr>fIP := fIP s + 1\<rparr>" by simp
  show thesis
  proof (cases "uint command = kVoid_Command K")
    case True
    with rest have "r = None" "s' = s0" by (simp_all add: yield_def)
    with c True show thesis by (intro void) simp_all
  next
    case False
    with rest have tag: "uint command = kSymbolTable_Command K"
      by (auto simp: failWith_def split: if_splits)
    with rest False obtain ownedCount s1 where oc: "readU16 s0 = Inr (ownedCount, s1)"
      and body: "(let oldTable = fSymbolTable s1 in
           andThen (newSymbolTable (if inherit then fSymbolTable s1 else None) True) (\<lambda>result s1.
             andThen (repeat (unat ownedCount) (symbol n K)) (\<lambda>ownedSymbols.
             andThen readU16 (\<lambda>symbolCount.
             andThen (repeat (unat symbolCount) (addReference ownedSymbols)) (\<lambda>us s2.
             Inr (Some result, s2\<lparr>fSymbolTable := oldTable\<rparr>))))
             (s1\<lparr>fSymbolTable := Some result\<rparr>)) s1) = Inr (r, s')"
      by (auto elim: andThenE)
    from oc s0 have s1: "heap s1 = heap s" "fSymbolTable s1 = fSymbolTable s"
      by (auto dest: readU16_result)
    let ?p = "length (tables (heap s))"
    from body s1 have loop: "andThen (repeat (unat ownedCount) (symbol n K)) (\<lambda>ownedSymbols.
             andThen readU16 (\<lambda>symbolCount.
             andThen (repeat (unat symbolCount) (addReference ownedSymbols)) (\<lambda>us s2.
             Inr (Some ?p, s2\<lparr>fSymbolTable := fSymbolTable s\<rparr>))))
             (pushTable inherit s1) = Inr (r, s')"
      by (simp add: Let_def andThen_def newSymbolTable_def pushTable_def)
    from loop obtain ownedSymbols s2 where owned:
      "repeat (unat ownedCount) (symbol n K) (pushTable inherit s1) = Inr (ownedSymbols, s2)"
      and l2: "andThen readU16 (\<lambda>symbolCount.
             andThen (repeat (unat symbolCount) (addReference ownedSymbols)) (\<lambda>us s2.
             Inr (Some ?p, s2\<lparr>fSymbolTable := fSymbolTable s\<rparr>))) s2 = Inr (r, s')"
      by (rule andThenE)
    from l2 obtain symbolCount s3 where sc: "readU16 s2 = Inr (symbolCount, s3)"
      and l3: "andThen (repeat (unat symbolCount) (addReference ownedSymbols)) (\<lambda>us s2.
             Inr (Some ?p, s2\<lparr>fSymbolTable := fSymbolTable s\<rparr>)) s3 = Inr (r, s')"
      by (rule andThenE)
    from l3 obtain us s4 where refs:
      "repeat (unat symbolCount) (addReference ownedSymbols) s3 = Inr (us, s4)"
      and r: "r = Some ?p" and s': "s' = s4\<lparr>fSymbolTable := fSymbolTable s\<rparr>"
      by (auto elim: andThenE)
    from c False tag oc s1 r owned sc refs s' show thesis by (rule table)
  qed
qed


lemma symbolTable_new_table:
  assumes "symbolTable n K inherit s = Inr (Some p, s')"
  shows "p = length (tables (heap s))
     \<and> map fBuiltin (tables (heap s')) = map fBuiltin (tables (heap s)) @ [True]
     \<and> map fParent (tables (heap s')) =
         map fParent (tables (heap s)) @ [if inherit then fSymbolTable s else None]"
  using assms
proof (cases rule: symbolTable_runs)
  case (void command)
  then show ?thesis by simp
next
  case (table command s0 ownedCount s1 ownedSymbols s2 symbolCount s3 us s4)
  have "frame (pushTable inherit s1) s2"
    using keeps_repeat [OF keeps_symbol] table(8) by (rule keepsD)
  moreover have "frame s2 s3"
    using keeps_readU16 table(9) by (rule keepsD)
  moreover have "frame s3 s4"
    using keeps_repeat [OF keeps_addReference] table(10) by (rule keepsD)
  ultimately have "frame (pushTable inherit s1) s4"
    by (blast intro: frame_trans)
  with table(5,6,7,11) show ?thesis
    by (simp add: frame_def pushTable_def)
qed




































































































text \<open>
  C10: the constructor fails its assertion when the symbol table it is given is null or
  is not builtin, so that a session that starts has a builtin table as its active table;
  and a table that \<open>symbolTable\<close> returns, inheriting or not, is a new table of the store
  whose builtin flag is set, the flags of the tables already there being unchanged.
\<close>

theorem rehydrator_tables_builtin:
  "Rehydrator_new h None src = Inl SkASSERT
   \<and> (t < length (tables h) \<and> \<not> isBuiltin (tables h ! t) \<longrightarrow>
        Rehydrator_new h (Some t) src = Inl SkASSERT)
   \<and> (Rehydrator_new h st src = Inr r0 \<longrightarrow>
        (\<exists>t. st = Some t \<and> fSymbolTable r0 = Some t \<and> heap r0 = h \<and> t < length (tables h)
           \<and> isBuiltin (tables h ! t)))
   \<and> (symbolTable n K inherit s = Inr (Some p, s') \<longrightarrow>
        p = length (tables (heap s)) \<and> length (tables (heap s')) = Suc p
        \<and> isBuiltin (tables (heap s') ! p)
        \<and> map isBuiltin (take p (tables (heap s'))) = map isBuiltin (tables (heap s)))"
proof (intro conjI impI)
  show "Rehydrator_new h None src = Inl SkASSERT"
    by (simp add: Rehydrator_new_def)
next
  assume "t < length (tables h) \<and> \<not> isBuiltin (tables h ! t)"
  then show "Rehydrator_new h (Some t) src = Inl SkASSERT"
    by (simp add: Rehydrator_new_def)
next
  assume "Rehydrator_new h st src = Inr r0"
  then show "\<exists>t. st = Some t \<and> fSymbolTable r0 = Some t \<and> heap r0 = h \<and> t < length (tables h)
           \<and> isBuiltin (tables h ! t)"
    by (auto simp: Rehydrator_new_def dest!: readU16_result
        split: option.splits if_splits sum.splits)
next
  assume a: "symbolTable n K inherit s = Inr (Some p, s')"
  from symbolTable_new_table [OF a]
  have p: "p = length (tables (heap s))"
    and b: "map fBuiltin (tables (heap s')) = map fBuiltin (tables (heap s)) @ [True]"
    by simp_all
  from p show "p = length (tables (heap s))" .
  from b have "length (map fBuiltin (tables (heap s'))) = Suc (length (tables (heap s)))"
    by simp
  with p show l: "length (tables (heap s')) = Suc p" by simp
  have "map fBuiltin (tables (heap s')) ! p = True"
    using b p by (simp add: nth_append)
  with l show "isBuiltin (tables (heap s') ! p)"
    by (simp add: isBuiltin_def)
  have "take p (map fBuiltin (tables (heap s'))) = map fBuiltin (tables (heap s))"
    using b p by simp
  then show "map isBuiltin (take p (tables (heap s'))) = map isBuiltin (tables (heap s))"
    by (simp add: take_map isBuiltin_def [abs_def])
qed

lemma tableStream_decodes:
  "\<exists>s'. symbolTable (Suc 0) sampleConstants inherit tableStart = Inr (Some 3, s')
     \<and> fIP s' = 16 \<and> fStart s' = tableStream"
  by (simp add: symbolTable_def andThen_def yield_def failWith_def readU8_def readU16_def
      readString_def newSymbolTable_def addReference_def Rehydrator_addWithoutOwnership_def
      addWithoutOwnership_def Rehydrator_takeOwnershipOfSymbol_def takeOwnershipOfSymbol_def
      addSymbol_def MakeEnumType_def sampleConstants_def tableStream_def tableStart_def
      sampleHeap_def Let_def)








theorem rehydrator_tables_builtin_witness:
  "Rehydrator_new sampleHeap None tableStream = Inl SkASSERT
   \<and> Rehydrator_new sampleHeap (Some 1) tableStream = Inl SkASSERT
   \<and> Rehydrator_new sampleHeap (Some 0) tableStream = Inr tableStart
   \<and> isBuiltin (tables (heap tableStart) ! 0)
   \<and> (\<exists>s'. symbolTable (Suc 0) sampleConstants False tableStart = Inr (Some 3, s')
        \<and> length (tables (heap s')) = 4 \<and> isBuiltin (tables (heap s') ! 3))"
proof -
  have 1: "Rehydrator_new sampleHeap None tableStream = Inl SkASSERT"
    using rehydrator_tables_builtin [where h = sampleHeap and src = tableStream] by blast
  have "1 < length (tables sampleHeap) \<and> \<not> isBuiltin (tables sampleHeap ! 1)"
    by (simp add: sampleHeap_def isBuiltin_def)
  with rehydrator_tables_builtin [where h = sampleHeap and src = tableStream and t = 1]
  have 2: "Rehydrator_new sampleHeap (Some 1) tableStream = Inl SkASSERT"
    by blast
  have 3: "Rehydrator_new sampleHeap (Some 0) tableStream = Inr tableStart"
    by (simp add: Rehydrator_new_def sampleHeap_def isBuiltin_def readU16_def readU8_def
        andThen_def yield_def tableStream_def tableStart_def)
  with rehydrator_tables_builtin [where h = sampleHeap and src = tableStream
      and st = "Some 0" and ?r0.0 = tableStart]
  have 4: "isBuiltin (tables (heap tableStart) ! 0)"
    by auto
  from tableStream_decodes [of False] obtain s' where
    e: "symbolTable (Suc 0) sampleConstants False tableStart = Inr (Some 3, s')"
    by blast
  with rehydrator_tables_builtin [where s = tableStart and s' = s' and p = 3 and n = "Suc 0"
      and K = sampleConstants and inherit = False]
  have "length (tables (heap s')) = Suc 3 \<and> isBuiltin (tables (heap s') ! 3)"
    by blast
  with e have 5: "\<exists>s'. symbolTable (Suc 0) sampleConstants False tableStart = Inr (Some 3, s')
        \<and> length (tables (heap s')) = 4 \<and> isBuiltin (tables (heap s') ! 3)"
    by auto
  from 1 2 3 4 5 show ?thesis by blast
qed

end
